theory Spec2Isabelle
  imports Main "HOL-Library.Sublist"
begin

section \<open>JavaScript strings\<close>

text \<open>
  A JavaScript string is a sequence of UTF-16 code units; \<open>length\<close>, \<open>substring\<close> and
  the regular expressions of the source (none has the \<open>u\<close> flag) all count code units.
  A string is therefore a list of code units, each an integer from 0 to 65535.
  \<open>js\<close> turns an ASCII literal into such a list.
\<close>

type_synonym jstring = "int list"

definition js :: "string \<Rightarrow> jstring" where
  "js s = map of_char s"

text \<open>Sets of code units, as lists of inclusive ranges (the character classes of a regex).\<close>

type_synonym cset = "(int \<times> int) list"

fun in_cset :: "int \<Rightarrow> cset \<Rightarrow> bool" where
  "in_cset c [] = False"
| "in_cset c ((lo, hi) # rs) = ((lo \<le> c \<and> c \<le> hi) \<or> in_cset c rs)"

text \<open>\<open>\d\<close>, \<open>\w\<close>, \<open>\s\<close> and the line terminators (which \<open>.\<close> excludes), as ECMAScript
  defines them. \<open>\s\<close> is WhiteSpace and LineTerminator: TAB, LF, VT, FF, CR, SP, NBSP,
  U+1680, U+2000..U+200A, U+2028, U+2029, U+202F, U+205F, U+3000, U+FEFF.\<close>

definition cs_digit :: cset where
  "cs_digit = [(48, 57)]"

definition cs_word :: cset where
  "cs_word = [(48, 57), (65, 90), (95, 95), (97, 122)]"

definition cs_space :: cset where
  "cs_space = [(9, 13), (32, 32), (160, 160), (5760, 5760), (8192, 8202), (8232, 8233),
               (8239, 8239), (8287, 8287), (12288, 12288), (65279, 65279)]"

definition cs_newline :: cset where
  "cs_newline = [(10, 10), (13, 13), (8232, 8233)]"

definition is_space :: "int \<Rightarrow> bool" where
  "is_space c = in_cset c cs_space"

text \<open>\<open>String.prototype.trim\<close>, \<open>startsWith\<close>, \<open>split\<close> on a one-unit separator,
  \<open>Array.prototype.join\<close>, \<open>includes\<close>.\<close>

definition trim :: "jstring \<Rightarrow> jstring" where
  "trim s = rev (dropWhile is_space (rev (dropWhile is_space s)))"

definition startsWith :: "jstring \<Rightarrow> jstring \<Rightarrow> bool" where
  "startsWith s p = (take (length p) s = p)"

fun split_on :: "int \<Rightarrow> jstring \<Rightarrow> jstring list" where
  "split_on sep [] = [[]]"
| "split_on sep (c # s) =
     (if c = sep then [] # split_on sep s
      else (case split_on sep s of l # ls \<Rightarrow> (c # l) # ls | [] \<Rightarrow> [[c]]))"

fun join :: "jstring \<Rightarrow> jstring list \<Rightarrow> jstring" where
  "join sep [] = []"
| "join sep [l] = l"
| "join sep (l # l' # ls) = l @ sep @ join sep (l' # ls)"

fun str_includes :: "jstring \<Rightarrow> jstring \<Rightarrow> bool" where
  "str_includes [] k = (k = [])"
| "str_includes (c # s) k = (startsWith (c # s) k \<or> str_includes s k)"

section \<open>Regular expressions\<close>

text \<open>
  The regular expressions of the source use character classes, sequence, alternation,
  the greedy quantifiers \<open>*\<close>, \<open>+\<close>, \<open>?\<close>, \<open>{n}\<close>, \<open>{m,n}\<close> and the assertions \<open>^\<close> and \<open>$\<close>
  (with or without the \<open>m\<close> flag). Groups are never referred to, so they are not recorded.
\<close>

datatype regex =
    Sym cset        \<comment> \<open>one code unit of the set\<close>
  | NSym cset       \<comment> \<open>one code unit outside the set\<close>
  | Eps
  | Seq regex regex
  | Alt regex regex
  | Star regex      \<comment> \<open>greedy\<close>
  | Bol bool        \<comment> \<open>\<open>^\<close>; the argument is the \<open>m\<close> flag\<close>
  | Eol bool        \<comment> \<open>\<open>$\<close>; the argument is the \<open>m\<close> flag\<close>

text \<open>
  A matcher state is the code unit before the current position (\<open>None\<close> at the start of the
  input) and the rest of the input. \<open>ends r st\<close> lists the states in which a match of \<open>r\<close>
  begun at \<open>st\<close> can end, in the order in which the backtracking matcher of ECMAScript tries
  them: the left alternative first, the longest repetition first. An iteration of \<open>*\<close> that
  consumes nothing is rejected, as in ECMAScript's RepeatMatcher.
\<close>

type_synonym mstate = "int option \<times> jstring"

function ends :: "regex \<Rightarrow> mstate \<Rightarrow> mstate list" where
  "ends (Sym cs) (p, s) =
     (case s of [] \<Rightarrow> [] | c # t \<Rightarrow> if in_cset c cs then [(Some c, t)] else [])"
| "ends (NSym cs) (p, s) =
     (case s of [] \<Rightarrow> [] | c # t \<Rightarrow> if in_cset c cs then [] else [(Some c, t)])"
| "ends Eps st = [st]"
| "ends (Seq r1 r2) st = concat (map (\<lambda>st'. ends r2 st') (ends r1 st))"
| "ends (Alt r1 r2) st = ends r1 st @ ends r2 st"
| "ends (Star r) st =
     concat (map (\<lambda>st'. ends (Star r) st')
               (filter (\<lambda>st'. length (snd st') < length (snd st)) (ends r st))) @ [st]"
| "ends (Bol m) (p, s) =
     (case p of None \<Rightarrow> [(p, s)]
      | Some c \<Rightarrow> if m \<and> in_cset c cs_newline then [(p, s)] else [])"
| "ends (Eol m) (p, s) =
     (case s of [] \<Rightarrow> [(p, s)]
      | c # t \<Rightarrow> if m \<and> in_cset c cs_newline then [(p, s)] else [])"
  by pat_completeness auto
termination
  by (relation "measures [\<lambda>(r, st). size r, \<lambda>(r, st). length (snd st)]") auto

text \<open>The match the engine reports at a position is the first end.\<close>

definition match_at :: "regex \<Rightarrow> mstate \<Rightarrow> mstate option" where
  "match_at r st = (case ends r st of [] \<Rightarrow> None | e # _ \<Rightarrow> Some e)"

text \<open>\<open>RegExp.prototype.exec\<close> from a position: the leftmost position with a match, and the
  matched text there. \<open>re_test\<close> is \<open>regex.test(s)\<close> and the truth value of
  \<open>s.match(regex)\<close>; \<open>re_first\<close> is \<open>s.match(regex)[0]\<close>, with or without the \<open>g\<close> flag.\<close>

fun re_exec :: "regex \<Rightarrow> int option \<Rightarrow> jstring \<Rightarrow> jstring option" where
  "re_exec r p [] = (case match_at r (p, []) of None \<Rightarrow> None | Some _ \<Rightarrow> Some [])"
| "re_exec r p (c # s) =
     (case match_at r (p, c # s) of
        Some (p', s') \<Rightarrow> Some (take (length (c # s) - length s') (c # s))
      | None \<Rightarrow> re_exec r (Some c) s)"

definition re_first :: "regex \<Rightarrow> jstring \<Rightarrow> jstring option" where
  "re_first r s = re_exec r None s"

definition re_test :: "regex \<Rightarrow> jstring \<Rightarrow> bool" where
  "re_test r s = (re_first r s \<noteq> None)"

text \<open>
  \<open>s.replace(regex, rep)\<close> for a regex with the \<open>g\<close> flag and a replacement without \<open>$\<close>:
  every match, found from the end of the previous one, is replaced; after an empty match
  the search moves on by one code unit, which is copied.
\<close>

function replace_from :: "regex \<Rightarrow> jstring \<Rightarrow> int option \<Rightarrow> jstring \<Rightarrow> jstring" where
  "replace_from r rep p s =
     (case match_at r (p, s) of
        None \<Rightarrow> (case s of [] \<Rightarrow> [] | c # t \<Rightarrow> c # replace_from r rep (Some c) t)
      | Some (p', s') \<Rightarrow>
          (if length s' < length s then rep @ replace_from r rep p' s'
           else (case s of [] \<Rightarrow> rep | c # t \<Rightarrow> rep @ c # replace_from r rep (Some c) t)))"
  by pat_completeness auto
termination
  by (relation "measure (\<lambda>(r, rep, p, s). length s)") auto

definition replace_all :: "regex \<Rightarrow> jstring \<Rightarrow> jstring \<Rightarrow> jstring" where
  "replace_all r rep s = replace_from r rep None s"

text \<open>Notation for writing the patterns of the source.\<close>

definition seqs :: "regex list \<Rightarrow> regex" where
  "seqs rs = foldr Seq rs Eps"

definition alts :: "regex list \<Rightarrow> regex" where
  "alts rs = (case rs of [] \<Rightarrow> NSym [(0, 65535)] | _ \<Rightarrow> foldr Alt (butlast rs) (last rs))"

definition Rep1 :: "regex \<Rightarrow> regex" where
  "Rep1 r = Seq r (Star r)"

definition Opt :: "regex \<Rightarrow> regex" where
  "Opt r = Alt r Eps"

definition lit :: "string \<Rightarrow> regex" where
  "lit s = seqs (map (\<lambda>c. Sym [(of_char c, of_char c)]) s)"

text \<open>A literal under the \<open>i\<close> flag: in a regex without the \<open>u\<close> flag a code unit matches an
  ASCII letter of the pattern only if it is that letter in either case (the canonicalisation
  of ECMAScript never maps a code unit above 127 to one below 128).\<close>

definition ci_set :: "int \<Rightarrow> cset" where
  "ci_set n = (if 97 \<le> n \<and> n \<le> 122 then [(n, n), (n - 32, n - 32)]
               else if 65 \<le> n \<and> n \<le> 90 then [(n, n), (n + 32, n + 32)]
               else [(n, n)])"

definition ci_lit :: "string \<Rightarrow> regex" where
  "ci_lit s = seqs (map (\<lambda>c. Sym (ci_set (of_char c))) s)"

definition Dot :: regex where
  "Dot = NSym cs_newline"

definition ws :: regex where
  "ws = Star (Sym cs_space)"

definition ws1 :: regex where
  "ws1 = Rep1 (Sym cs_space)"

section \<open>JavaScript numbers\<close>

text \<open>
  A finite IEEE double is a dyadic rational: the pair \<open>(m, e)\<close> stands for \<open>m * 2 ^ e\<close>.
  An arithmetic operation of JavaScript is the exact operation followed by rounding to 53
  significant bits, ties to even. The operands in this program are lengths and counts, far
  from overflow and from the subnormal range, which are therefore not modelled. Lengths
  and counts themselves, and sums of them below \<open>2 ^ 53\<close>, are exact and kept as integers.
\<close>

type_synonym dbl = "int \<times> int"

fun bitlen :: "int \<Rightarrow> nat" where
  "bitlen n = (if n \<le> 0 then 0 else Suc (bitlen (n div 2)))"

declare bitlen.simps [simp del]

text \<open>The double nearest to the fraction \<open>n / d\<close> (for \<open>d > 0\<close>): the fraction is scaled by a
  power of two so that its integer part has 53 bits, and rounded there to the nearest
  integer, a tie going to the even one.\<close>

definition scale_frac :: "int \<Rightarrow> int \<Rightarrow> int \<Rightarrow> int \<times> int" where
  "scale_frac n d s = (if 0 \<le> s then (n * 2 ^ nat s, d) else (n, d * 2 ^ nat (- s)))"

definition round_scaled :: "int \<times> int \<Rightarrow> int" where
  "round_scaled x = (case x of (n, d) \<Rightarrow>
     (let q = n div d; r = n mod d
      in if d < 2 * r \<or> (2 * r = d \<and> odd q) then q + 1 else q))"

definition round_frac :: "int \<Rightarrow> int \<Rightarrow> dbl" where
  "round_frac n d =
     (if n \<le> 0 then (0, 0)
      else let k = int (bitlen n) - int (bitlen d);
               s = (if 2 ^ 53 \<le> fst (scale_frac n d (53 - k)) div snd (scale_frac n d (53 - k))
                    then 52 - k else 53 - k)
           in (round_scaled (scale_frac n d s), - s))"

definition d_norm :: "dbl \<Rightarrow> dbl" where
  "d_norm x = (case x of (m, e) \<Rightarrow>
     (case round_frac \<bar>m\<bar> 1 of (q, s) \<Rightarrow> (sgn m * q, s + e)))"

definition d_of_nat :: "nat \<Rightarrow> dbl" where
  "d_of_nat n = d_norm (int n, 0)"

definition d_div :: "dbl \<Rightarrow> dbl \<Rightarrow> dbl" where
  "d_div x y = (case (x, y) of ((m1, e1), (m2, e2)) \<Rightarrow>
     (case round_frac \<bar>m1\<bar> \<bar>m2\<bar> of (q, s) \<Rightarrow> (sgn m1 * sgn m2 * q, s + e1 - e2)))"

definition d_mul :: "dbl \<Rightarrow> dbl \<Rightarrow> dbl" where
  "d_mul x y = (case (x, y) of ((m1, e1), (m2, e2)) \<Rightarrow> d_norm (m1 * m2, e1 + e2))"

definition d_sub :: "dbl \<Rightarrow> dbl \<Rightarrow> dbl" where
  "d_sub x y = (case (x, y) of ((m1, e1), (m2, e2)) \<Rightarrow>
     (let e = min e1 e2
      in d_norm (m1 * 2 ^ nat (e1 - e) - m2 * 2 ^ nat (e2 - e), e)))"

definition d_le :: "dbl \<Rightarrow> dbl \<Rightarrow> bool" where
  "d_le x y = (case (x, y) of ((m1, e1), (m2, e2)) \<Rightarrow>
     (let e = min e1 e2 in m1 * 2 ^ nat (e1 - e) \<le> m2 * 2 ^ nat (e2 - e)))"

definition d_less :: "dbl \<Rightarrow> dbl \<Rightarrow> bool" where
  "d_less x y = (\<not> d_le y x)"

definition d_max :: "dbl \<Rightarrow> dbl \<Rightarrow> dbl" where
  "d_max x y = (if d_less x y then y else x)"

text \<open>\<open>Math.round\<close>: the nearest integer, a tie going up.\<close>

definition d_round :: "dbl \<Rightarrow> int" where
  "d_round x = (case x of (m, e) \<Rightarrow>
     (if 0 \<le> e then m * 2 ^ nat e else (2 * m + 2 ^ nat (- e)) div 2 ^ nat (1 - e)))"

text \<open>A number that may also be \<open>NaN\<close> or \<open>Infinity\<close>, as a division of two counts may be.\<close>

datatype jsnum = NaN | PosInf | Fin dbl

definition num_div :: "nat \<Rightarrow> nat \<Rightarrow> jsnum" where
  "num_div m c = (if c = 0 then (if m = 0 then NaN else PosInf)
                  else Fin (d_div (d_of_nat m) (d_of_nat c)))"

definition num_mul :: "jsnum \<Rightarrow> dbl \<Rightarrow> jsnum" where
  "num_mul x y = (case x of NaN \<Rightarrow> NaN | PosInf \<Rightarrow> PosInf | Fin a \<Rightarrow> Fin (d_mul a y))"

definition num_ge :: "jsnum \<Rightarrow> dbl \<Rightarrow> bool" where
  "num_ge x y = (case x of NaN \<Rightarrow> False | PosInf \<Rightarrow> True | Fin a \<Rightarrow> d_le y a)"

text \<open>The decimal digits of an integer, as JavaScript prints an integral number below
  \<open>10 ^ 21\<close>.\<close>

function show_nat :: "int \<Rightarrow> jstring" where
  "show_nat n = (if n < 10 then [48 + n] else show_nat (n div 10) @ [48 + n mod 10])"
  by pat_completeness auto
termination
  by (relation "measure nat") auto

declare show_nat.simps [simp del]

definition show_int :: "int \<Rightarrow> jstring" where
  "show_int i = (if i < 0 then 45 # show_nat (- i) else show_nat i)"

definition show_rounded :: "jsnum \<Rightarrow> jstring" where
  "show_rounded x = (case x of NaN \<Rightarrow> js ''NaN'' | PosInf \<Rightarrow> js ''Infinity''
                     | Fin a \<Rightarrow> show_int (d_round a))"

section \<open>Compare: trigram similarity\<close>

text \<open>
  The class \<open>Compare\<close> of the helpers module. \<open>String.prototype.toUpperCase\<close> belongs to
  the host and follows the Unicode case mappings; it is the parameter \<open>up\<close> of the model.
  \<open>trigrams\<close> is a plain object used as a dictionary whose keys are strings of three
  code units (no property of \<open>Object.prototype\<close> has such a name), hence a map.
\<close>

record compare =
  inputs :: "jstring list"
  words :: "jstring list"
  word_trigram_count :: "nat list"
  trigrams :: "jstring \<rightharpoonup> nat list"
  trigrams_count :: "nat list"
  trigrams_matches :: nat

text \<open>\<open>__to_trigram\<close> calls the callback on each window of three code units of the padded,
  upper-cased word, from left to right; \<open>to_trigram\<close> is the list of those arguments.\<close>

definition to_trigram :: "(jstring \<Rightarrow> jstring) \<Rightarrow> jstring \<Rightarrow> jstring list" where
  "to_trigram up word =
     (let data = up (js ''  '' @ word @ js ''  '')
      in filter (\<lambda>trigram. length trigram = 3)
           (map (\<lambda>i. take 3 (drop i data)) [0 ..< length data - 2]))"

text \<open>The callback of \<open>__set\<close>. It is only called with the index of the word just pushed,
  which is in range of \<open>word_trigram_count\<close>.\<close>

definition set_callback :: "nat \<Rightarrow> jstring \<Rightarrow> compare \<Rightarrow> compare" where
  "set_callback word_index arg st =
     (let words_for_trigram = (case trigrams st arg of None \<Rightarrow> [] | Some l \<Rightarrow> l);
          words_for_trigram' = (if word_index \<in> set words_for_trigram then words_for_trigram
                                else words_for_trigram @ [word_index])
      in st\<lparr>trigrams := (trigrams st)(arg \<mapsto> words_for_trigram'),
            word_trigram_count := (word_trigram_count st)
               [word_index := word_trigram_count st ! word_index + 1]\<rparr>)"

definition Compare_set :: "(jstring \<Rightarrow> jstring) \<Rightarrow> jstring \<Rightarrow> compare \<Rightarrow> compare" where
  "Compare_set up word st =
     (if word = [] \<or> word \<in> set (words st) then st
      else let st1 = st\<lparr>trigrams_count := trigrams_count st @ [0],
                         words := words st @ [word],
                         word_trigram_count := word_trigram_count st @ [0]\<rparr>;
               word_index = length (words st1) - 1
           in fold (set_callback word_index) (to_trigram up word) st1)"

definition Compare_new :: "(jstring \<Rightarrow> jstring) \<Rightarrow> jstring list \<Rightarrow> compare" where
  "Compare_new up words_list =
     fold (Compare_set up) words_list
       \<lparr>inputs = words_list, words = [], word_trigram_count = [], trigrams = Map.empty,
        trigrams_count = [], trigrams_matches = 0\<rparr>"

record match_result =
  res_word :: jstring
  res_matches :: nat
  res_similarity :: jstring

text \<open>The callback of \<open>eval\<close>: a trigram that is no key of \<open>trigrams\<close> makes the loop header
  throw a TypeError, which the callback catches after counting the trigram. The indices
  stored in \<open>trigrams\<close> are in range of \<open>word_matches\<close> and \<open>trigrams_count\<close>.\<close>

definition eval_callback :: "jstring \<Rightarrow> compare \<times> nat list \<Rightarrow> compare \<times> nat list" where
  "eval_callback arg acc = (case acc of (st, word_matches) \<Rightarrow>
     (let st1 = st\<lparr>trigrams_matches := trigrams_matches st + 1\<rparr>
      in case trigrams st arg of
           None \<Rightarrow> (st1, word_matches)
         | Some words_for_trigram \<Rightarrow>
             fold (\<lambda>word_index (st2, wm).
                     (st2\<lparr>trigrams_count := (trigrams_count st2)
                            [word_index := trigrams_count st2 ! word_index + 1]\<rparr>,
                      wm[word_index := wm ! word_index + 1]))
               words_for_trigram (st1, word_matches)))"

definition percentage :: "nat \<Rightarrow> nat \<Rightarrow> jsnum" where
  "percentage m count = num_mul (num_div m count) (100, 0)"

definition eval_entry :: "compare \<Rightarrow> nat list \<Rightarrow> nat \<Rightarrow> match_result list" where
  "eval_entry st word_matches i =
     (let count = word_trigram_count st ! i;
          pct = percentage (word_matches ! i) count;
          similarity = show_rounded pct @ js ''%''
      in if num_ge pct (49, 0)
         then [\<lparr>res_word = words st ! i, res_matches = word_matches ! i,
                res_similarity = similarity\<rparr>]
         else [])"

text \<open>\<open>Array.prototype.sort\<close> is stable; with the comparator \<open>b.matches - a.matches\<close> it is
  the stable sort on the negated match count.\<close>

definition Compare_eval ::
  "(jstring \<Rightarrow> jstring) \<Rightarrow> jstring \<Rightarrow> compare \<Rightarrow> match_result list \<times> compare" where
  "Compare_eval up word st =
     (case fold eval_callback (to_trigram up word)
             (st\<lparr>trigrams_matches := 0\<rparr>, replicate (length (words st)) 0) of
        (st', word_matches) \<Rightarrow>
          (sort_key (\<lambda>r. - int (res_matches r))
             (concat (map (eval_entry st' word_matches) [0 ..< length (trigrams_count st')])),
           st'))"

text \<open>Upper-casing restricted to ASCII letters, the instance of \<open>up\<close> used for evaluating
  examples: on ASCII strings it is what the host computes.\<close>

definition ascii_upper :: "jstring \<Rightarrow> jstring" where
  "ascii_upper s = map (\<lambda>c. if 97 \<le> c \<and> c \<le> 122 then c - 32 else c) s"

section \<open>NewsExtract: cleaning extracted text\<close>

definition cu :: "int \<Rightarrow> regex" where
  "cu c = Sym [(c, c)]"

text \<open>The bounded quantifier \<open>{lo,hi}\<close>, greedy.\<close>

fun opt_chain :: "nat \<Rightarrow> regex \<Rightarrow> regex" where
  "opt_chain 0 r = Eps"
| "opt_chain (Suc n) r = Opt (Seq r (opt_chain n r))"

definition Rep :: "nat \<Rightarrow> nat \<Rightarrow> regex \<Rightarrow> regex" where
  "Rep lo hi r = Seq (seqs (replicate lo r)) (opt_chain (hi - lo) r)"

text \<open>
  The patterns of \<open>clean_extracted_content\<close>, in the order of the source. The first list
  holds the patterns of the single \<open>replace\<close> calls at the head of the function, the second
  is its array \<open>unwantedPatterns\<close>, the third the patterns of the \<open>if (trimmed.match(...))
  return false\<close> lines of the line filter, the fourth its array \<open>technicalPatterns\<close>.
\<close>

definition css_and_script_passes :: "regex list" where
  \<open>css_and_script_passes =
     \<comment> \<open>/\.[a-zA-Z_][\w\-]*\s*\{[^}]*\}/g\<close>
    [seqs [lit ''.'', Sym [(97, 122), (65, 90), (95, 95)], Star (Sym (cs_word @ [(45, 45)])), ws, lit ''{'', Star (NSym [(125, 125)]), lit ''}''],
     \<comment> \<open>/@[a-zA-Z_][\w\-]*\s*\{[^}]*\}/g\<close>
     seqs [lit ''@'', Sym [(97, 122), (65, 90), (95, 95)], Star (Sym (cs_word @ [(45, 45)])), ws, lit ''{'', Star (NSym [(125, 125)]), lit ''}''],
     \<comment> \<open>/\#[a-zA-Z_][\w\-]*\s*\{[^}]*\}/g\<close>
     seqs [lit ''#'', Sym [(97, 122), (65, 90), (95, 95)], Star (Sym (cs_word @ [(45, 45)])), ws, lit ''{'', Star (NSym [(125, 125)]), lit ''}''],
     \<comment> \<open>/[a-zA-Z\-]+\s*:\s*[^;{}]+;?/g\<close>
     seqs [Rep1 (Sym [(97, 122), (65, 90), (45, 45)]), ws, lit '':'', ws, Rep1 (NSym [(59, 59), (123, 123), (125, 125)]), Opt (lit '';'')],
     \<comment> \<open>/\([^)]*\)\s*=>\s*[^;]+/g\<close>
     seqs [lit ''('', Star (NSym [(41, 41)]), lit '')'', ws, lit ''=>'', ws, Rep1 (NSym [(59, 59)])],
     \<comment> \<open>/\s*=\s*"[^"]*";\s*/g\<close>
     seqs [ws, lit ''='', ws, cu 34, Star (NSym [(34, 34)]), cu 34, lit '';'', ws],
     \<comment> \<open>/\s*=\s*<[^>]*>[^<]*<\/[^>]*>;\s*/g\<close>
     seqs [ws, lit ''='', ws, lit ''<'', Star (NSym [(62, 62)]), lit ''>'', Star (NSym [(60, 60)]), lit ''</'', Star (NSym [(62, 62)]), lit ''>;'', ws],
     \<comment> \<open>/\([^)]*\)\s*=>\s*\w+\s*===/g\<close>
     seqs [lit ''('', Star (NSym [(41, 41)]), lit '')'', ws, lit ''=>'', ws, Rep1 (Sym cs_word), ws, lit ''===''],
     \<comment> \<open>/function\s+\w+\s*\([^)]*\)\s*\{[^}]*\}/g\<close>
     seqs [lit ''function'', ws1, Rep1 (Sym cs_word), ws, lit ''('', Star (NSym [(41, 41)]), lit '')'', ws, lit ''{'', Star (NSym [(125, 125)]), lit ''}''],
     \<comment> \<open>/\/\*[^*]*\*+(?:[^/*][^*]*\*+)*\//g\<close>
     seqs [lit ''/*'', Star (NSym [(42, 42)]), Rep1 (lit ''*''), Star (seqs [NSym [(47, 47), (42, 42)], Star (NSym [(42, 42)]), Rep1 (lit ''*'')]), lit ''/''],
     \<comment> \<open>/\/\/.*$/gm\<close>
     seqs [lit ''//'', Star Dot, Eol True],
     \<comment> \<open>/\w+\s*\.\s*\w+\s*=\s*[^;]+;/g\<close>
     seqs [Rep1 (Sym cs_word), ws, lit ''.'', ws, Rep1 (Sym cs_word), ws, lit ''='', ws, Rep1 (NSym [(59, 59)]), lit '';''],
     \<comment> \<open>/\w+\s*\.\s*appendChild\([^)]*\);?/g\<close>
     seqs [Rep1 (Sym cs_word), ws, lit ''.'', ws, lit ''appendChild('', Star (NSym [(41, 41)]), lit '')'', Opt (lit '';'')],
     \<comment> \<open>/\w+\s*\.\s*innerHTML\s*=\s*[^;]+;?/g\<close>
     seqs [Rep1 (Sym cs_word), ws, lit ''.'', ws, lit ''innerHTML'', ws, lit ''='', ws, Rep1 (NSym [(59, 59)]), Opt (lit '';'')],
     \<comment> \<open>/document\.[a-zA-Z]+\([^)]*\)/g\<close>
     seqs [lit ''document.'', Rep1 (Sym [(97, 122), (65, 90)]), lit ''('', Star (NSym [(41, 41)]), lit '')''],
     \<comment> \<open>/window\.[a-zA-Z]+\([^)]*\)/g\<close>
     seqs [lit ''window.'', Rep1 (Sym [(97, 122), (65, 90)]), lit ''('', Star (NSym [(41, 41)]), lit '')''],
     \<comment> \<open>/\w+\s*=\s*\w+\s*\|\|\s*\[\]/g\<close>
     seqs [Rep1 (Sym cs_word), ws, lit ''='', ws, Rep1 (Sym cs_word), ws, lit ''||'', ws, lit ''[]''],
     \<comment> \<open>/\.push\([^)]*\)/g\<close>
     seqs [lit ''.push('', Star (NSym [(41, 41)]), lit '')''],
     \<comment> \<open>/addEventListener\([^)]*\)/g\<close>
     seqs [lit ''addEventListener('', Star (NSym [(41, 41)]), lit '')''],
     \<comment> \<open>/querySelector[All]*\([^)]*\)/g\<close>
     seqs [lit ''querySelector'', Star (Sym [(65, 65), (108, 108), (108, 108)]), lit ''('', Star (NSym [(41, 41)]), lit '')''],
     \<comment> \<open>/createElement\([^)]*\)/g\<close>
     seqs [lit ''createElement('', Star (NSym [(41, 41)]), lit '')''],
     \<comment> \<open>/insertBefore\([^)]*\)/g\<close>
     seqs [lit ''insertBefore('', Star (NSym [(41, 41)]), lit '')''],
     \<comment> \<open>/insertAdjacentHTML\([^)]*\)/g\<close>
     seqs [lit ''insertAdjacentHTML('', Star (NSym [(41, 41)]), lit '')'']]\<close>

definition unwantedPatterns :: "regex list" where
  \<open>unwantedPatterns =
     \<comment> \<open>/\.[a-zA-Z_][\w\-]*\s*>\s*\.[a-zA-Z_][\w\-]*/g\<close>
    [seqs [lit ''.'', Sym [(97, 122), (65, 90), (95, 95)], Star (Sym (cs_word @ [(45, 45)])), ws, lit ''>'', ws, lit ''.'', Sym [(97, 122), (65, 90), (95, 95)], Star (Sym (cs_word @ [(45, 45)]))],
     \<comment> \<open>/\.[a-zA-Z_][\w\-]*\s*,\s*\.[a-zA-Z_][\w\-]*/g\<close>
     seqs [lit ''.'', Sym [(97, 122), (65, 90), (95, 95)], Star (Sym (cs_word @ [(45, 45)])), ws, lit '','', ws, lit ''.'', Sym [(97, 122), (65, 90), (95, 95)], Star (Sym (cs_word @ [(45, 45)]))],
     \<comment> \<open>/\.[a-zA-Z_][\w\-]*\s+\.[a-zA-Z_][\w\-]*/g\<close>
     seqs [lit ''.'', Sym [(97, 122), (65, 90), (95, 95)], Star (Sym (cs_word @ [(45, 45)])), ws1, lit ''.'', Sym [(97, 122), (65, 90), (95, 95)], Star (Sym (cs_word @ [(45, 45)]))],
     \<comment> \<open>/\#[a-zA-Z_][\w\-]*\s*>\s*\.[a-zA-Z_][\w\-]*/g\<close>
     seqs [lit ''#'', Sym [(97, 122), (65, 90), (95, 95)], Star (Sym (cs_word @ [(45, 45)])), ws, lit ''>'', ws, lit ''.'', Sym [(97, 122), (65, 90), (95, 95)], Star (Sym (cs_word @ [(45, 45)]))],
     \<comment> \<open>/\.tdi_\d+/g\<close>
     seqs [lit ''.tdi_'', Rep1 (Sym cs_digit)],
     \<comment> \<open>/\.wpb_wrapper/g\<close>
     lit ''.wpb_wrapper'',
     \<comment> \<open>/\.tdc-elements/g\<close>
     lit ''.tdc-elements'',
     \<comment> \<open>/\.vc_column-inner/g\<close>
     lit ''.vc_column-inner'',
     \<comment> \<open>/\.tdb_single_/g\<close>
     lit ''.tdb_single_'',
     \<comment> \<open>/\.td-theme-wrap/g\<close>
     lit ''.td-theme-wrap'',
     \<comment> \<open>/\.td-block-/g\<close>
     lit ''.td-block-'',
     \<comment> \<open>/\.td-post-/g\<close>
     lit ''.td-post-'',
     \<comment> \<open>/\.td-icon-/g\<close>
     lit ''.td-icon-'',
     \<comment> \<open>/\.td-social-/g\<close>
     lit ''.td-social-'',
     \<comment> \<open>/\.addtoany_/g\<close>
     lit ''.addtoany_'',
     \<comment> \<open>/\.a2a_/g\<close>
     lit ''.a2a_'',
     \<comment> \<open>/block_tdi_\d+\./g\<close>
     seqs [lit ''block_tdi_'', Rep1 (Sym cs_digit), lit ''.''],
     \<comment> \<open>/tdBlocksArray\./g\<close>
     lit ''tdBlocksArray.'',
     \<comment> \<open>/adsbygoogle/g\<close>
     lit ''adsbygoogle'',
     \<comment> \<open>/window\.adsbygoogle/g\<close>
     lit ''window.adsbygoogle'',
     \<comment> \<open>/FacebookTwitterPinterestWhatsApp/g\<close>
     lit ''FacebookTwitterPinterestWhatsApp'',
     \<comment> \<open>/Facebook.*Twitter.*Pinterest.*WhatsApp/g\<close>
     seqs [lit ''Facebook'', Star Dot, lit ''Twitter'', Star Dot, lit ''Pinterest'', Star Dot, lit ''WhatsApp''],
     \<comment> \<open>/const\s+publicNoticesLink\s*=/g\<close>
     seqs [lit ''const'', ws1, lit ''publicNoticesLink'', ws, lit ''=''],
     \<comment> \<open>/const\s+businessLinkExists\s*=/g\<close>
     seqs [lit ''const'', ws1, lit ''businessLinkExists'', ws, lit ''=''],
     \<comment> \<open>/Array\.from\([^)]*\)\.find/g\<close>
     seqs [lit ''Array.from('', Star (NSym [(41, 41)]), lit '').find''],
     \<comment> \<open>/Array\.from\([^)]*\)\.some/g\<close>
     seqs [lit ''Array.from('', Star (NSym [(41, 41)]), lit '').some''],
     \<comment> \<open>/\.textContent\.trim\(\)/g\<close>
     lit ''.textContent.trim()'',
     \<comment> \<open>/businessLink\.className/g\<close>
     lit ''businessLink.className'',
     \<comment> \<open>/businessLink\.href/g\<close>
     lit ''businessLink.href'',
     \<comment> \<open>/businessLink\.innerHTML/g\<close>
     lit ''businessLink.innerHTML'',
     \<comment> \<open>/sep\.className/g\<close>
     lit ''sep.className'',
     \<comment> \<open>/insertBefore\([^)]*\)/g\<close>
     seqs [lit ''insertBefore('', Star (NSym [(41, 41)]), lit '')''],
     \<comment> \<open>/const\s+\w+\s*=\s*\[.*\]/g\<close>
     seqs [lit ''const'', ws1, Rep1 (Sym cs_word), ws, lit ''='', ws, lit ''['', Star Dot, lit '']''],
     \<comment> \<open>/if\s*\([^)]*\)\s*\{/g\<close>
     seqs [lit ''if'', ws, lit ''('', Star (NSym [(41, 41)]), lit '')'', ws, lit ''{''],
     \<comment> \<open>/if\s*\([^)]*\s*&&\s*[^)]*$/g\<close>
     seqs [lit ''if'', ws, lit ''('', Star (NSym [(41, 41)]), ws, lit ''&&'', ws, Star (NSym [(41, 41)]), Eol False],
     \<comment> \<open>/\}\s*else\s*\{/g\<close>
     seqs [lit ''}'', ws, lit ''else'', ws, lit ''{''],
     \<comment> \<open>/\.includes\([^)]*\)/g\<close>
     seqs [lit ''.includes('', Star (NSym [(41, 41)]), lit '')''],
     \<comment> \<open>/\.style\.display\s*=/g\<close>
     seqs [lit ''.style.display'', ws, lit ''=''],
     \<comment> \<open>/li\.textContent\.trim\(\)/g\<close>
     lit ''li.textContent.trim()'',
     \<comment> \<open>/\([^)]*\)\s*=>\s*[^;]+/g\<close>
     seqs [lit ''('', Star (NSym [(41, 41)]), lit '')'', ws, lit ''=>'', ws, Rep1 (NSym [(59, 59)])],
     \<comment> \<open>/\s*=\s*"[^"]*";\s*/g\<close>
     seqs [ws, lit ''='', ws, cu 34, Star (NSym [(34, 34)]), cu 34, lit '';'', ws],
     \<comment> \<open>/\s*=\s*<[^>]*>[^<]*<\/[^>]*>;\s*/g\<close>
     seqs [ws, lit ''='', ws, lit ''<'', Star (NSym [(62, 62)]), lit ''>'', Star (NSym [(60, 60)]), lit ''</'', Star (NSym [(62, 62)]), lit ''>;'', ws],
     \<comment> \<open>/\([^)]*\)\s*=>\s*\w+\s*===/g\<close>
     seqs [lit ''('', Star (NSym [(41, 41)]), lit '')'', ws, lit ''=>'', ws, Rep1 (Sym cs_word), ws, lit ''===''],
     \<comment> \<open>/a\s*=>\s*a\s*===\s*"[^"]*"/g\<close>
     seqs [lit ''a'', ws, lit ''=>'', ws, lit ''a'', ws, lit ''==='', ws, cu 34, Star (NSym [(34, 34)]), cu 34],
     \<comment> \<open>/\s*=\s*"tdb-[^"]*"/g\<close>
     seqs [ws, lit ''='', ws, cu 34, lit ''tdb-'', Star (NSym [(34, 34)]), cu 34],
     \<comment> \<open>/\s*=\s*"td-[^"]*"/g\<close>
     seqs [ws, lit ''='', ws, cu 34, lit ''td-'', Star (NSym [(34, 34)]), cu 34],
     \<comment> \<open>/function\s+\w+\s*\([^)]*\)\s*\{[^}]*\}/g\<close>
     seqs [lit ''function'', ws1, Rep1 (Sym cs_word), ws, lit ''('', Star (NSym [(41, 41)]), lit '')'', ws, lit ''{'', Star (NSym [(125, 125)]), lit ''}''],
     \<comment> \<open>/\/\*[^*]*\*+(?:[^/*][^*]*\*+)*\//g\<close>
     seqs [lit ''/*'', Star (NSym [(42, 42)]), Rep1 (lit ''*''), Star (seqs [NSym [(47, 47), (42, 42)], Star (NSym [(42, 42)]), Rep1 (lit ''*'')]), lit ''/''],
     \<comment> \<open>/\/\/.*$/gm\<close>
     seqs [lit ''//'', Star Dot, Eol True],
     \<comment> \<open>/\w+\s*\.\s*appendChild\([^)]*\);?/g\<close>
     seqs [Rep1 (Sym cs_word), ws, lit ''.'', ws, lit ''appendChild('', Star (NSym [(41, 41)]), lit '')'', Opt (lit '';'')],
     \<comment> \<open>/\w+\s*\.\s*innerHTML\s*=\s*[^;]+;?/g\<close>
     seqs [Rep1 (Sym cs_word), ws, lit ''.'', ws, lit ''innerHTML'', ws, lit ''='', ws, Rep1 (NSym [(59, 59)]), Opt (lit '';'')],
     \<comment> \<open>/\w+\s*\.\s*className\s*=\s*[^;]+;?/g\<close>
     seqs [Rep1 (Sym cs_word), ws, lit ''.'', ws, lit ''className'', ws, lit ''='', ws, Rep1 (NSym [(59, 59)]), Opt (lit '';'')],
     \<comment> \<open>/\w+\s*\.\s*src\s*=\s*[^;]+;?/g\<close>
     seqs [Rep1 (Sym cs_word), ws, lit ''.'', ws, lit ''src'', ws, lit ''='', ws, Rep1 (NSym [(59, 59)]), Opt (lit '';'')],
     \<comment> \<open>/\w+\s*\.\s*allowFullscreen\s*=\s*[^;]+;?/g\<close>
     seqs [Rep1 (Sym cs_word), ws, lit ''.'', ws, lit ''allowFullscreen'', ws, lit ''='', ws, Rep1 (NSym [(59, 59)]), Opt (lit '';'')],
     \<comment> \<open>/\w+\s*\.\s*controls\s*=\s*[^;]+;?/g\<close>
     seqs [Rep1 (Sym cs_word), ws, lit ''.'', ws, lit ''controls'', ws, lit ''='', ws, Rep1 (NSym [(59, 59)]), Opt (lit '';'')],
     \<comment> \<open>/\w+\s*\.\s*autoplay\s*=\s*[^;]+;?/g\<close>
     seqs [Rep1 (Sym cs_word), ws, lit ''.'', ws, lit ''autoplay'', ws, lit ''='', ws, Rep1 (NSym [(59, 59)]), Opt (lit '';'')],
     \<comment> \<open>/openVideoModal\([^)]*\)/g\<close>
     seqs [lit ''openVideoModal('', Star (NSym [(41, 41)]), lit '')''],
     \<comment> \<open>/close\.className/g\<close>
     lit ''close.className'',
     \<comment> \<open>/close\.innerHTML/g\<close>
     lit ''close.innerHTML'',
     \<comment> \<open>/contentElement\./g\<close>
     lit ''contentElement.'',
     \<comment> \<open>/wrapper\.appendChild/g\<close>
     lit ''wrapper.appendChild'',
     \<comment> \<open>/modal\.appendChild/g\<close>
     lit ''modal.appendChild'',
     \<comment> \<open>/td_column_number\s*=/g\<close>
     seqs [lit ''td_column_number'', ws, lit ''=''],
     \<comment> \<open>/block_type\s*=/g\<close>
     seqs [lit ''block_type'', ws, lit ''=''],
     \<comment> \<open>/found_posts\s*=/g\<close>
     seqs [lit ''found_posts'', ws, lit ''=''],
     \<comment> \<open>/header_color\s*=/g\<close>
     seqs [lit ''header_color'', ws, lit ''=''],
     \<comment> \<open>/ajax_pagination_infinite_stop\s*=/g\<close>
     seqs [lit ''ajax_pagination_infinite_stop'', ws, lit ''=''],
     \<comment> \<open>/max_num_pages\s*=/g\<close>
     seqs [lit ''max_num_pages'', ws, lit ''=''],
     \<comment> \<open>/Discover\s+more/g\<close>
     seqs [lit ''Discover'', ws1, lit ''more''],
     \<comment> \<open>/ArtTelevisionPortable\s+speakers/g\<close>
     seqs [lit ''ArtTelevisionPortable'', ws1, lit ''speakers''],
     \<comment> \<open>/CadburyMilkManila/g\<close>
     lit ''CadburyMilkManila'',
     \<comment> \<open>/Online\s+TV\s+streaming\s+services/g\<close>
     seqs [lit ''Online'', ws1, lit ''TV'', ws1, lit ''streaming'', ws1, lit ''services''],
     \<comment> \<open>/TVMusicEntertainment\s+center/g\<close>
     seqs [lit ''TVMusicEntertainment'', ws1, lit ''center''],
     \<comment> \<open>/Soybean/g\<close>
     lit ''Soybean'',
     \<comment> \<open>/^\d+\s+\d+\s+\d+\s+\d+\s+\d+Share.*$/gm\<close>
     seqs [Bol True, Rep1 (Sym cs_digit), ws1, Rep1 (Sym cs_digit), ws1, Rep1 (Sym cs_digit), ws1, Rep1 (Sym cs_digit), ws1, Rep1 (Sym cs_digit), lit ''Share'', Star Dot, Eol True],
     \<comment> \<open>/Filtered by:.*$/gm\<close>
     seqs [lit ''Filtered by:'', Star Dot, Eol True],
     \<comment> \<open>/Tags:.*$/gm\<close>
     seqs [lit ''Tags:'', Star Dot, Eol True],
     \<comment> \<open>/Next Story.*$/gm\<close>
     seqs [lit ''Next Story'', Star Dot, Eol True],
     \<comment> \<open>/VIEW MORE.*$/gm\<close>
     seqs [lit ''VIEW MORE'', Star Dot, Eol True],
     \<comment> \<open>/Most Popular.*$/gm\<close>
     seqs [lit ''Most Popular'', Star Dot, Eol True],
     \<comment> \<open>/Other Stories.*$/gm\<close>
     seqs [lit ''Other Stories'', Star Dot, Eol True],
     \<comment> \<open>/Recommended for you.*$/gm\<close>
     seqs [lit ''Recommended for you'', Star Dot, Eol True],
     \<comment> \<open>/LOADING CONTENT.*$/gm\<close>
     seqs [lit ''LOADING CONTENT'', Star Dot, Eol True],
     \<comment> \<open>/LOAD MORE ARTICLES.*$/gm\<close>
     seqs [lit ''LOAD MORE ARTICLES'', Star Dot, Eol True],
     \<comment> \<open>/RETRY LOADING.*$/gm\<close>
     seqs [lit ''RETRY LOADING'', Star Dot, Eol True],
     \<comment> \<open>/advertisement/gi\<close>
     ci_lit ''advertisement'',
     \<comment> \<open>/Need a wellness break\?.*$/gm\<close>
     seqs [lit ''Need a wellness break?'', Star Dot, Eol True],
     \<comment> \<open>/Sign up for.*$/gm\<close>
     seqs [lit ''Sign up for'', Star Dot, Eol True],
     \<comment> \<open>/Stay up-to-date.*$/gm\<close>
     seqs [lit ''Stay up-to-date'', Star Dot, Eol True],
     \<comment> \<open>/Please enter a valid email address.*$/gm\<close>
     seqs [lit ''Please enter a valid email address'', Star Dot, Eol True],
     \<comment> \<open>/Your email is safe with us.*$/gm\<close>
     seqs [lit ''Your email is safe with us'', Star Dot, Eol True],
     \<comment> \<open>/At a Glance.*$/gm\<close>
     seqs [lit ''At a Glance'', Star Dot, Eol True],
     \<comment> \<open>/Brand Talk.*$/gm\<close>
     seqs [lit ''Brand Talk'', Star Dot, Eol True],
     \<comment> \<open>/Sports.*$/gm\<close>
     seqs [lit ''Sports'', Star Dot, Eol True],
     \<comment> \<open>/Pinoy Abroad.*$/gm\<close>
     seqs [lit ''Pinoy Abroad'', Star Dot, Eol True],
     \<comment> \<open>/SciTech.*$/gm\<close>
     seqs [lit ''SciTech'', Star Dot, Eol True],
     \<comment> \<open>/Showbiz.*$/gm\<close>
     seqs [lit ''Showbiz'', Star Dot, Eol True],
     \<comment> \<open>/Lifestyle.*$/gm\<close>
     seqs [lit ''Lifestyle'', Star Dot, Eol True],
     \<comment> \<open>/Opinion.*$/gm\<close>
     seqs [lit ''Opinion'', Star Dot, Eol True],
     \<comment> \<open>/Hashtag.*$/gm\<close>
     seqs [lit ''Hashtag'', Star Dot, Eol True],
     \<comment> \<open>/News.*$/gm\<close>
     seqs [lit ''News'', Star Dot, Eol True],
     \<comment> \<open>/Money.*$/gm\<close>
     seqs [lit ''Money'', Star Dot, Eol True],
     \<comment> \<open>/\.\w+\s*\{[^}]*\}/gm\<close>
     seqs [lit ''.'', Rep1 (Sym cs_word), ws, lit ''{'', Star (NSym [(125, 125)]), lit ''}''],
     \<comment> \<open>/var\s+.*=.*;.*$/gm\<close>
     seqs [lit ''var'', ws1, Star Dot, lit ''='', Star Dot, lit '';'', Star Dot, Eol True],
     \<comment> \<open>/function\s*\(.*\).*$/gm\<close>
     seqs [lit ''function'', ws, lit ''('', Star Dot, lit '')'', Star Dot, Eol True],
     \<comment> \<open>/csell_zoneid.*$/gm\<close>
     seqs [lit ''csell_zoneid'', Star Dot, Eol True],
     \<comment> \<open>/csell_article_tags.*$/gm\<close>
     seqs [lit ''csell_article_tags'', Star Dot, Eol True],
     \<comment> \<open>/crowdyPage.*$/gm\<close>
     seqs [lit ''crowdyPage'', Star Dot, Eol True],
     \<comment> \<open>/csell_isMobile.*$/gm\<close>
     seqs [lit ''csell_isMobile'', Star Dot, Eol True],
     \<comment> \<open>/csellViewsJson.*$/gm\<close>
     seqs [lit ''csellViewsJson'', Star Dot, Eol True],
     \<comment> \<open>/\.AR_\d+.*$/gm\<close>
     seqs [lit ''.AR_'', Rep1 (Sym cs_digit), Star Dot, Eol True],
     \<comment> \<open>/\.ob-widget.*$/gm\<close>
     seqs [lit ''.ob-widget'', Star Dot, Eol True],
     \<comment> \<open>/background-image.*$/gm\<close>
     seqs [lit ''background-image'', Star Dot, Eol True],
     \<comment> \<open>/background-size.*$/gm\<close>
     seqs [lit ''background-size'', Star Dot, Eol True],
     \<comment> \<open>/width:\d+px.*$/gm\<close>
     seqs [lit ''width:'', Rep1 (Sym cs_digit), lit ''px'', Star Dot, Eol True],
     \<comment> \<open>/height:\d+px.*$/gm\<close>
     seqs [lit ''height:'', Rep1 (Sym cs_digit), lit ''px'', Star Dot, Eol True],
     \<comment> \<open>/padding:.*$/gm\<close>
     seqs [lit ''padding:'', Star Dot, Eol True],
     \<comment> \<open>/margin:.*$/gm\<close>
     seqs [lit ''margin:'', Star Dot, Eol True],
     \<comment> \<open>/color:.*$/gm\<close>
     seqs [lit ''color:'', Star Dot, Eol True],
     \<comment> \<open>/font-size:.*$/gm\<close>
     seqs [lit ''font-size:'', Star Dot, Eol True],
     \<comment> \<open>/font-family:.*$/gm\<close>
     seqs [lit ''font-family:'', Star Dot, Eol True],
     \<comment> \<open>/text-decoration:.*$/gm\<close>
     seqs [lit ''text-decoration:'', Star Dot, Eol True],
     \<comment> \<open>/display:.*$/gm\<close>
     seqs [lit ''display:'', Star Dot, Eol True],
     \<comment> \<open>/box-sizing:.*$/gm\<close>
     seqs [lit ''box-sizing:'', Star Dot, Eol True],
     \<comment> \<open>/@media.*$/gm\<close>
     seqs [lit ''@media'', Star Dot, Eol True],
     \<comment> \<open>/-webkit-.*$/gm\<close>
     seqs [lit ''-webkit-'', Star Dot, Eol True],
     \<comment> \<open>/-moz-.*$/gm\<close>
     seqs [lit ''-moz-'', Star Dot, Eol True],
     \<comment> \<open>/border:.*$/gm\<close>
     seqs [lit ''border:'', Star Dot, Eol True],
     \<comment> \<open>/overflow:.*$/gm\<close>
     seqs [lit ''overflow:'', Star Dot, Eol True],
     \<comment> \<open>/position:.*$/gm\<close>
     seqs [lit ''position:'', Star Dot, Eol True],
     \<comment> \<open>/float:.*$/gm\<close>
     seqs [lit ''float:'', Star Dot, Eol True],
     \<comment> \<open>/clear:.*$/gm\<close>
     seqs [lit ''clear:'', Star Dot, Eol True],
     \<comment> \<open>/flex:.*$/gm\<close>
     seqs [lit ''flex:'', Star Dot, Eol True],
     \<comment> \<open>/justify-content:.*$/gm\<close>
     seqs [lit ''justify-content:'', Star Dot, Eol True],
     \<comment> \<open>/align-items:.*$/gm\<close>
     seqs [lit ''align-items:'', Star Dot, Eol True],
     \<comment> \<open>/font-weight:.*$/gm\<close>
     seqs [lit ''font-weight:'', Star Dot, Eol True],
     \<comment> \<open>/border-radius:.*$/gm\<close>
     seqs [lit ''border-radius:'', Star Dot, Eol True],
     \<comment> \<open>/filter:.*$/gm\<close>
     seqs [lit ''filter:'', Star Dot, Eol True],
     \<comment> \<open>/transform:.*$/gm\<close>
     seqs [lit ''transform:'', Star Dot, Eol True],
     \<comment> \<open>/transition:.*$/gm\<close>
     seqs [lit ''transition:'', Star Dot, Eol True],
     \<comment> \<open>/animation:.*$/gm\<close>
     seqs [lit ''animation:'', Star Dot, Eol True],
     \<comment> \<open>/z-index:.*$/gm\<close>
     seqs [lit ''z-index:'', Star Dot, Eol True],
     \<comment> \<open>/opacity:.*$/gm\<close>
     seqs [lit ''opacity:'', Star Dot, Eol True],
     \<comment> \<open>/visibility:.*$/gm\<close>
     seqs [lit ''visibility:'', Star Dot, Eol True],
     \<comment> \<open>/cursor:.*$/gm\<close>
     seqs [lit ''cursor:'', Star Dot, Eol True],
     \<comment> \<open>/text-align:.*$/gm\<close>
     seqs [lit ''text-align:'', Star Dot, Eol True],
     \<comment> \<open>/vertical-align:.*$/gm\<close>
     seqs [lit ''vertical-align:'', Star Dot, Eol True],
     \<comment> \<open>/line-height:.*$/gm\<close>
     seqs [lit ''line-height:'', Star Dot, Eol True],
     \<comment> \<open>/letter-spacing:.*$/gm\<close>
     seqs [lit ''letter-spacing:'', Star Dot, Eol True],
     \<comment> \<open>/text-transform:.*$/gm\<close>
     seqs [lit ''text-transform:'', Star Dot, Eol True],
     \<comment> \<open>/white-space:.*$/gm\<close>
     seqs [lit ''white-space:'', Star Dot, Eol True],
     \<comment> \<open>/word-wrap:.*$/gm\<close>
     seqs [lit ''word-wrap:'', Star Dot, Eol True],
     \<comment> \<open>/word-break:.*$/gm\<close>
     seqs [lit ''word-break:'', Star Dot, Eol True],
     \<comment> \<open>/text-overflow:.*$/gm\<close>
     seqs [lit ''text-overflow:'', Star Dot, Eol True],
     \<comment> \<open>/list-style:.*$/gm\<close>
     seqs [lit ''list-style:'', Star Dot, Eol True],
     \<comment> \<open>/table-layout:.*$/gm\<close>
     seqs [lit ''table-layout:'', Star Dot, Eol True],
     \<comment> \<open>/border-collapse:.*$/gm\<close>
     seqs [lit ''border-collapse:'', Star Dot, Eol True],
     \<comment> \<open>/caption-side:.*$/gm\<close>
     seqs [lit ''caption-side:'', Star Dot, Eol True],
     \<comment> \<open>/empty-cells:.*$/gm\<close>
     seqs [lit ''empty-cells:'', Star Dot, Eol True],
     \<comment> \<open>/content:.*$/gm\<close>
     seqs [lit ''content:'', Star Dot, Eol True],
     \<comment> \<open>/quotes:.*$/gm\<close>
     seqs [lit ''quotes:'', Star Dot, Eol True],
     \<comment> \<open>/counter-reset:.*$/gm\<close>
     seqs [lit ''counter-reset:'', Star Dot, Eol True],
     \<comment> \<open>/counter-increment:.*$/gm\<close>
     seqs [lit ''counter-increment:'', Star Dot, Eol True],
     \<comment> \<open>/resize:.*$/gm\<close>
     seqs [lit ''resize:'', Star Dot, Eol True],
     \<comment> \<open>/outline:.*$/gm\<close>
     seqs [lit ''outline:'', Star Dot, Eol True],
     \<comment> \<open>/outline-offset:.*$/gm\<close>
     seqs [lit ''outline-offset:'', Star Dot, Eol True],
     \<comment> \<open>/box-shadow:.*$/gm\<close>
     seqs [lit ''box-shadow:'', Star Dot, Eol True],
     \<comment> \<open>/text-shadow:.*$/gm\<close>
     seqs [lit ''text-shadow:'', Star Dot, Eol True],
     \<comment> \<open>/clip:.*$/gm\<close>
     seqs [lit ''clip:'', Star Dot, Eol True],
     \<comment> \<open>/clip-path:.*$/gm\<close>
     seqs [lit ''clip-path:'', Star Dot, Eol True],
     \<comment> \<open>/mask:.*$/gm\<close>
     seqs [lit ''mask:'', Star Dot, Eol True],
     \<comment> \<open>/mask-image:.*$/gm\<close>
     seqs [lit ''mask-image:'', Star Dot, Eol True],
     \<comment> \<open>/mask-mode:.*$/gm\<close>
     seqs [lit ''mask-mode:'', Star Dot, Eol True],
     \<comment> \<open>/mask-repeat:.*$/gm\<close>
     seqs [lit ''mask-repeat:'', Star Dot, Eol True],
     \<comment> \<open>/mask-position:.*$/gm\<close>
     seqs [lit ''mask-position:'', Star Dot, Eol True],
     \<comment> \<open>/mask-clip:.*$/gm\<close>
     seqs [lit ''mask-clip:'', Star Dot, Eol True],
     \<comment> \<open>/mask-origin:.*$/gm\<close>
     seqs [lit ''mask-origin:'', Star Dot, Eol True],
     \<comment> \<open>/mask-size:.*$/gm\<close>
     seqs [lit ''mask-size:'', Star Dot, Eol True],
     \<comment> \<open>/mask-composite:.*$/gm\<close>
     seqs [lit ''mask-composite:'', Star Dot, Eol True],
     \<comment> \<open>/mask-border:.*$/gm\<close>
     seqs [lit ''mask-border:'', Star Dot, Eol True],
     \<comment> \<open>/mask-border-source:.*$/gm\<close>
     seqs [lit ''mask-border-source:'', Star Dot, Eol True],
     \<comment> \<open>/mask-border-mode:.*$/gm\<close>
     seqs [lit ''mask-border-mode:'', Star Dot, Eol True],
     \<comment> \<open>/mask-border-slice:.*$/gm\<close>
     seqs [lit ''mask-border-slice:'', Star Dot, Eol True],
     \<comment> \<open>/mask-border-width:.*$/gm\<close>
     seqs [lit ''mask-border-width:'', Star Dot, Eol True],
     \<comment> \<open>/mask-border-outset:.*$/gm\<close>
     seqs [lit ''mask-border-outset:'', Star Dot, Eol True],
     \<comment> \<open>/mask-border-repeat:.*$/gm\<close>
     seqs [lit ''mask-border-repeat:'', Star Dot, Eol True],
     \<comment> \<open>/mask-border:.*$/gm\<close>
     seqs [lit ''mask-border:'', Star Dot, Eol True],
     \<comment> \<open>/&[a-zA-Z0-9#]+;/g\<close>
     seqs [lit ''&'', Rep1 (Sym [(97, 122), (65, 90), (48, 57), (35, 35)]), lit '';''],
     \<comment> \<open>/\\n\s*\\n/g\<close>
     seqs [cu 92, lit ''n'', ws, cu 92, lit ''n''],
     \<comment> \<open>/\\t/g\<close>
     seqs [cu 92, lit ''t''],
     \<comment> \<open>/\\"/g\<close>
     seqs [cu 92, cu 34],
     \<comment> \<open>/\\\\/g\<close>
     seqs [cu 92, cu 92],
     \<comment> \<open>/^\s*$/gm\<close>
     seqs [Bol True, ws, Eol True],
     \<comment> \<open>/\n\s*\n\s*\n/g\<close>
     seqs [cu 10, ws, cu 10, ws, cu 10],
     \<comment> \<open>/\u00d7/g\<close>
     cu 215,
     \<comment> \<open>/\u2039\u203a/g\<close>
     seqs [cu 8249, cu 8250],
     \<comment> \<open>/\u25c0/g\<close>
     cu 9664,
     \<comment> \<open>/\u25b6/g\<close>
     cu 9654,
     \<comment> \<open>/url\([^)]*\)/g\<close>
     seqs [lit ''url('', Star (NSym [(41, 41)]), lit '')''],
     \<comment> \<open>/https?:\/\/[^\s]+/g\<close>
     seqs [lit ''http'', Opt (lit ''s''), lit ''://'', Rep1 (NSym cs_space)],
     \<comment> \<open>/data-src="[^"]*"/g\<close>
     seqs [lit ''data-src='', cu 34, Star (NSym [(34, 34)]), cu 34],
     \<comment> \<open>/data-widget-id="[^"]*"/g\<close>
     seqs [lit ''data-widget-id='', cu 34, Star (NSym [(34, 34)]), cu 34],
     \<comment> \<open>/data-ob-template="[^"]*"/g\<close>
     seqs [lit ''data-ob-template='', cu 34, Star (NSym [(34, 34)]), cu 34],
     \<comment> \<open>/typeof\s+[^;]+/g\<close>
     seqs [lit ''typeof'', ws1, Rep1 (NSym [(59, 59)])],
     \<comment> \<open>/OBR\.extern\.researchWidget\(\)/g\<close>
     lit ''OBR.extern.researchWidget()'']\<close>

definition line_tests :: "regex list" where
  \<open>line_tests =
     \<comment> \<open>/^[0-9\s\-_\u00d7\u2039\u203a\u25c0\u25b6]+$/\<close>
    [seqs [Bol False, Rep1 (Sym ([(48, 57)] @ cs_space @ [(45, 45), (95, 95), (215, 215), (8249, 8249), (8250, 8250), (9664, 9664), (9654, 9654)])), Eol False],
     \<comment> \<open>/^\.[a-zA-Z_][\w\-]*\s*[>,\s]/\<close>
     seqs [Bol False, lit ''.'', Sym [(97, 122), (65, 90), (95, 95)], Star (Sym (cs_word @ [(45, 45)])), ws, Sym ([(62, 62), (44, 44)] @ cs_space)],
     \<comment> \<open>/^\#[a-zA-Z_][\w\-]*\s*[>,\s]/\<close>
     seqs [Bol False, lit ''#'', Sym [(97, 122), (65, 90), (95, 95)], Star (Sym (cs_word @ [(45, 45)])), ws, Sym ([(62, 62), (44, 44)] @ cs_space)],
     \<comment> \<open>/^[a-zA-Z\-]+\s*:\s*[^;{}]+;?\s*$/\<close>
     seqs [Bol False, Rep1 (Sym [(97, 122), (65, 90), (45, 45)]), ws, lit '':'', ws, Rep1 (NSym [(59, 59), (123, 123), (125, 125)]), Opt (lit '';''), ws, Eol False],
     \<comment> \<open>/\{[^}]*\}/\<close>
     seqs [lit ''{'', Star (NSym [(125, 125)]), lit ''}''],
     \<comment> \<open>/\.tdi_\d+|\.wpb_wrapper|\.tdc-elements|\.vc_column|\.tdb_|\.td-/\<close>
     alts [seqs [lit ''.tdi_'', Rep1 (Sym cs_digit)], lit ''.wpb_wrapper'', lit ''.tdc-elements'', lit ''.vc_column'', lit ''.tdb_'', lit ''.td-''],
     \<comment> \<open>/document\.|window\.|addEventListener|querySelector|createElement/\<close>
     alts [lit ''document.'', lit ''window.'', lit ''addEventListener'', lit ''querySelector'', lit ''createElement''],
     \<comment> \<open>/block_tdi_\d+|tdBlocksArray|adsbygoogle/\<close>
     alts [seqs [lit ''block_tdi_'', Rep1 (Sym cs_digit)], lit ''tdBlocksArray'', lit ''adsbygoogle''],
     \<comment> \<open>/const\s+\w+\s*=|Array\.from\(|\.textContent\.trim\(\)|\.className\s*=|\.href\s*=|\.innerHTML\s*=/\<close>
     alts [seqs [lit ''const'', ws1, Rep1 (Sym cs_word), ws, lit ''=''], lit ''Array.from('', lit ''.textContent.trim()'', seqs [lit ''.className'', ws, lit ''=''], seqs [lit ''.href'', ws, lit ''=''], seqs [lit ''.innerHTML'', ws, lit ''='']],
     \<comment> \<open>/if\s*\(.*\)\s*\{|else\s*\{|\}\s*else/\<close>
     alts [seqs [lit ''if'', ws, lit ''('', Star Dot, lit '')'', ws, lit ''{''], seqs [lit ''else'', ws, lit ''{''], seqs [lit ''}'', ws, lit ''else'']],
     \<comment> \<open>/if\s*\([^)]*\s*&&\s*[^)]*$/\<close>
     seqs [lit ''if'', ws, lit ''('', Star (NSym [(41, 41)]), ws, lit ''&&'', ws, Star (NSym [(41, 41)]), Eol False],
     \<comment> \<open>/FacebookTwitterPinterestWhatsApp|Discover\s+more|CadburyMilkManila/\<close>
     alts [lit ''FacebookTwitterPinterestWhatsApp'', seqs [lit ''Discover'', ws1, lit ''more''], lit ''CadburyMilkManila''],
     \<comment> \<open>/td_column_number|block_type|found_posts|header_color|max_num_pages/\<close>
     alts [lit ''td_column_number'', lit ''block_type'', lit ''found_posts'', lit ''header_color'', lit ''max_num_pages''],
     \<comment> \<open>/\([^)]*\)\s*=>\s*\w+\s*===/\<close>
     seqs [lit ''('', Star (NSym [(41, 41)]), lit '')'', ws, lit ''=>'', ws, Rep1 (Sym cs_word), ws, lit ''===''],
     \<comment> \<open>/^\s*=\s*"[^"]*";\s*$/\<close>
     seqs [Bol False, ws, lit ''='', ws, cu 34, Star (NSym [(34, 34)]), cu 34, lit '';'', ws, Eol False],
     \<comment> \<open>/^\s*=\s*<[^>]*>/\<close>
     seqs [Bol False, ws, lit ''='', ws, lit ''<'', Star (NSym [(62, 62)]), lit ''>''],
     \<comment> \<open>/a\s*=>\s*a\s*===\s*"[^"]*"/\<close>
     seqs [lit ''a'', ws, lit ''=>'', ws, lit ''a'', ws, lit ''==='', ws, cu 34, Star (NSym [(34, 34)]), cu 34],
     \<comment> \<open>/^\s*=\s*"tdb-|^\s*=\s*"td-/\<close>
     alts [seqs [Bol False, ws, lit ''='', ws, cu 34, lit ''tdb-''], seqs [Bol False, ws, lit ''='', ws, cu 34, lit ''td-'']],
     \<comment> \<open>/function\s+\w+\s*\([^)]*\)\s*\{/\<close>
     seqs [lit ''function'', ws1, Rep1 (Sym cs_word), ws, lit ''('', Star (NSym [(41, 41)]), lit '')'', ws, lit ''{''],
     \<comment> \<open>/\/\*.*\*\/|\/\/.*/\<close>
     alts [seqs [lit ''/*'', Star Dot, lit ''*/''], seqs [lit ''//'', Star Dot]],
     \<comment> \<open>/\w+\s*\.\s*(appendChild|innerHTML|className|src|allowFullscreen|controls|autoplay)\s*=/\<close>
     seqs [Rep1 (Sym cs_word), ws, lit ''.'', ws, alts [lit ''appendChild'', lit ''innerHTML'', lit ''className'', lit ''src'', lit ''allowFullscreen'', lit ''controls'', lit ''autoplay''], ws, lit ''=''],
     \<comment> \<open>/openVideoModal|contentElement\.|wrapper\.|modal\./\<close>
     alts [lit ''openVideoModal'', lit ''contentElement.'', lit ''wrapper.'', lit ''modal.''],
     \<comment> \<open>/close\.className|close\.innerHTML/\<close>
     alts [lit ''close.className'', lit ''close.innerHTML'']]\<close>

definition technicalPatterns :: "regex list" where
  \<open>technicalPatterns =
     \<comment> \<open>/\.\w+\s*\{/\<close>
    [seqs [lit ''.'', Rep1 (Sym cs_word), ws, lit ''{''],
     \<comment> \<open>/var\s+/\<close>
     seqs [lit ''var'', ws1],
     \<comment> \<open>/function\s*\(/\<close>
     seqs [lit ''function'', ws, lit ''(''],
     \<comment> \<open>/csell_/\<close>
     lit ''csell_'',
     \<comment> \<open>/\.AR_/\<close>
     lit ''.AR_'',
     \<comment> \<open>/\.ob-/\<close>
     lit ''.ob-'',
     \<comment> \<open>/background-/\<close>
     lit ''background-'',
     \<comment> \<open>/width:/\<close>
     lit ''width:'',
     \<comment> \<open>/height:/\<close>
     lit ''height:'',
     \<comment> \<open>/padding:/\<close>
     lit ''padding:'',
     \<comment> \<open>/margin:/\<close>
     lit ''margin:'',
     \<comment> \<open>/color:/\<close>
     lit ''color:'',
     \<comment> \<open>/font-/\<close>
     lit ''font-'',
     \<comment> \<open>/text-/\<close>
     lit ''text-'',
     \<comment> \<open>/display:/\<close>
     lit ''display:'',
     \<comment> \<open>/box-/\<close>
     lit ''box-'',
     \<comment> \<open>/@media/\<close>
     lit ''@media'',
     \<comment> \<open>/-webkit-/\<close>
     lit ''-webkit-'',
     \<comment> \<open>/-moz-/\<close>
     lit ''-moz-'',
     \<comment> \<open>/border:/\<close>
     lit ''border:'',
     \<comment> \<open>/overflow:/\<close>
     lit ''overflow:'',
     \<comment> \<open>/position:/\<close>
     lit ''position:'',
     \<comment> \<open>/float:/\<close>
     lit ''float:'',
     \<comment> \<open>/clear:/\<close>
     lit ''clear:'',
     \<comment> \<open>/flex:/\<close>
     lit ''flex:'',
     \<comment> \<open>/justify-/\<close>
     lit ''justify-'',
     \<comment> \<open>/align-/\<close>
     lit ''align-'',
     \<comment> \<open>/font-weight:/\<close>
     lit ''font-weight:'',
     \<comment> \<open>/border-radius:/\<close>
     lit ''border-radius:'',
     \<comment> \<open>/filter:/\<close>
     lit ''filter:'',
     \<comment> \<open>/transform:/\<close>
     lit ''transform:'',
     \<comment> \<open>/transition:/\<close>
     lit ''transition:'',
     \<comment> \<open>/animation:/\<close>
     lit ''animation:'',
     \<comment> \<open>/z-index:/\<close>
     lit ''z-index:'',
     \<comment> \<open>/opacity:/\<close>
     lit ''opacity:'',
     \<comment> \<open>/visibility:/\<close>
     lit ''visibility:'',
     \<comment> \<open>/cursor:/\<close>
     lit ''cursor:'',
     \<comment> \<open>/text-align:/\<close>
     lit ''text-align:'',
     \<comment> \<open>/vertical-align:/\<close>
     lit ''vertical-align:'',
     \<comment> \<open>/line-height:/\<close>
     lit ''line-height:'',
     \<comment> \<open>/letter-spacing:/\<close>
     lit ''letter-spacing:'',
     \<comment> \<open>/text-transform:/\<close>
     lit ''text-transform:'',
     \<comment> \<open>/white-space:/\<close>
     lit ''white-space:'',
     \<comment> \<open>/word-/\<close>
     lit ''word-'',
     \<comment> \<open>/text-overflow:/\<close>
     lit ''text-overflow:'',
     \<comment> \<open>/list-style:/\<close>
     lit ''list-style:'',
     \<comment> \<open>/table-/\<close>
     lit ''table-'',
     \<comment> \<open>/border-collapse:/\<close>
     lit ''border-collapse:'',
     \<comment> \<open>/caption-side:/\<close>
     lit ''caption-side:'',
     \<comment> \<open>/empty-cells:/\<close>
     lit ''empty-cells:'',
     \<comment> \<open>/content:/\<close>
     lit ''content:'',
     \<comment> \<open>/quotes:/\<close>
     lit ''quotes:'',
     \<comment> \<open>/counter-/\<close>
     lit ''counter-'',
     \<comment> \<open>/resize:/\<close>
     lit ''resize:'',
     \<comment> \<open>/outline:/\<close>
     lit ''outline:'',
     \<comment> \<open>/box-shadow:/\<close>
     lit ''box-shadow:'',
     \<comment> \<open>/text-shadow:/\<close>
     lit ''text-shadow:'',
     \<comment> \<open>/clip:/\<close>
     lit ''clip:'',
     \<comment> \<open>/mask:/\<close>
     lit ''mask:'',
     \<comment> \<open>/url\(/\<close>
     lit ''url('',
     \<comment> \<open>/data-/\<close>
     lit ''data-'',
     \<comment> \<open>/typeof/\<close>
     lit ''typeof'',
     \<comment> \<open>/OBR\./\<close>
     lit ''OBR.'']\<close>

definition remove_all :: "regex list \<Rightarrow> jstring \<Rightarrow> jstring" where
  "remove_all rs s = fold (\<lambda>pattern cleaned. replace_all pattern [] cleaned) rs s"

definition keep_line :: "jstring \<Rightarrow> bool" where
  "keep_line line =
     (let trimmed = trim line
      in if length trimmed < 20 then False
         else if list_ex (\<lambda>pattern. re_test pattern trimmed) line_tests then False
         else \<not> list_ex (\<lambda>pattern. re_test pattern trimmed) technicalPatterns)"

definition clean_extracted_content :: "jstring \<Rightarrow> jstring" where
  "clean_extracted_content content =
     (if content = [] then []
      else let cleanedContent = remove_all unwantedPatterns (remove_all css_and_script_passes content);
               lines = split_on 10 cleanedContent;
               filteredLines = filter keep_line lines
           in trim (replace_all (seqs [cu 10, ws, cu 10]) [10]
                      (replace_all ws1 [32] (join [10] filteredLines))))"

text \<open>The last line is \<open>filteredLines.join('\n').replace(/\s+/g, ' ').replace(/\n\s*\n/g,
  '\n').trim()\<close>.\<close>

section \<open>NewsExtract: the fields of an article\<close>

datatype error = Error jstring

text \<open>A JavaScript value, as far as this program distinguishes values: \<open>JObj\<close> is any
  other value that is truthy (an object, a non-zero number, \<open>true\<close>); the other falsy
  values behave as \<open>null\<close> does.\<close>

datatype jsval = JUndefined | JNull | JStr jstring | JArr "jsval list" | JObj

fun truthy :: "jsval \<Rightarrow> bool" where
  "truthy JUndefined = False"
| "truthy JNull = False"
| "truthy (JStr s) = (s \<noteq> [])"
| "truthy (JArr xs) = True"
| "truthy JObj = True"

text \<open>\<open>a || b\<close> for a string or \<open>null\<close> \<open>a\<close> and a string \<open>b\<close>.\<close>

definition or_else :: "jstring option \<Rightarrow> jstring \<Rightarrow> jstring" where
  "or_else a b = (case a of None \<Rightarrow> b | Some s \<Rightarrow> if s = [] then b else s)"

text \<open>
  The document tree and its selector queries belong to the host (\<open>DOMParser\<close>). A \<open>page\<close>
  holds what the queries of \<open>__get_newspaper3k_extract\<close> return on the parsed page source:
  the text of the first \<open>title\<close>, \<open>h1\<close> or \<open>.article-title\<close> element; the texts of the
  content elements; the \<open>lang\<close> attribute of \<open>html[lang]\<close>; the \<open>content\<close> attribute of the
  published-time \<open>meta\<close> element (the outer option is the element, the inner one the
  attribute); text and \<open>content\<close> attribute of each author element; the \<open>content\<close> and \<open>src\<close>
  attributes of the first image element; \<open>src\<close>, \<open>data-src\<close> and tag name of each video.
\<close>

record page =
  pg_title :: "jstring option"
  pg_content :: "jstring list"
  pg_html_lang :: "jstring option"
  pg_published :: "jstring option option"
  pg_authors :: "(jstring \<times> jstring option) list"
  pg_image :: "(jstring option \<times> jstring option) option"
  pg_videos :: "(jstring option \<times> jstring option \<times> jstring) list"

text \<open>The object that \<open>__get_newspaper3k_extract\<close> returns. \<open>art_meta_data\<close> is \<open>None\<close> for
  \<open>{}\<close> and \<open>Some t\<close> for \<open>{article: {published_time: t}}\<close>.\<close>

record article =
  art_title :: jstring
  art_text :: jstring
  art_meta_lang :: jstring
  art_meta_data :: "jstring option option"
  art_authors :: "jstring list"
  art_top_image :: jsval
  art_movies :: "(jstring \<times> jstring) list"

text \<open>
  What the host provides to \<open>NewsExtract\<close>: case mapping, \<open>atob\<close> (\<open>None\<close> when it throws), the
  page queries above (\<open>None\<close> when the DOM code throws), the HTML that \<open>__clean_html\<close> serialises,
  the \<open>content\<close> attribute of the section \<open>meta\<close> element, the text under the selector of a
  site, \<open>Date\<close> (a time value is the number of milliseconds since the epoch, \<open>None\<close> is an
  invalid date) and the host name of a URL (\<open>None\<close> when \<open>new URL\<close> throws).
\<close>

record host =
  toLowerCase :: "jstring \<Rightarrow> jstring"
  toUpperCase :: "jstring \<Rightarrow> jstring"
  atob :: "jstring \<Rightarrow> jstring option"
  parse_page :: "jstring \<Rightarrow> page option"
  cleaned_html :: "jstring \<Rightarrow> jstring option"
  section_meta :: "jstring \<Rightarrow> jstring option"
  selector_text :: "jstring \<Rightarrow> jstring \<Rightarrow> jstring option"
  date_parse :: "jstring \<Rightarrow> int option"
  date_local :: "int \<Rightarrow> int \<Rightarrow> int \<Rightarrow> int option"
  date_iso :: "int \<Rightarrow> jstring"
  url_hostname :: "jstring \<Rightarrow> jstring option"

definition get_newspaper3k_extract :: "host \<Rightarrow> jstring \<Rightarrow> article option" where
  "get_newspaper3k_extract h page_source =
     (if page_source \<noteq> [] then
        (case parse_page h page_source of
           None \<Rightarrow> None
         | Some doc \<Rightarrow>
             (let title = (case pg_title doc of None \<Rightarrow> [] | Some t \<Rightarrow> trim t);
                  text = trim (join [10] (pg_content doc));
                  meta_lang = (case pg_html_lang doc of None \<Rightarrow> js ''en''
                               | Some l \<Rightarrow> or_else (Some l) (js ''en''));
                  authors = filter (\<lambda>author. trim author \<noteq> [])
                              (map (\<lambda>(t, c). if t \<noteq> [] then t else or_else c []) (pg_authors doc));
                  top_image = (case pg_image doc of None \<Rightarrow> []
                               | Some (c, s) \<Rightarrow> or_else c (or_else s []));
                  movies = map (\<lambda>(s, d, tag). (or_else s (or_else d []), toLowerCase h tag))
                             (pg_videos doc)
              in Some \<lparr>art_title = title, art_text = text, art_meta_lang = meta_lang,
                       art_meta_data = pg_published doc,
                       art_authors = (if authors \<noteq> [] then authors else [js ''No - Author'']),
                       art_top_image = JStr top_image, art_movies = movies\<rparr>))
      else None)"

subsection \<open>Title\<close>

definition invalid_title_keys :: "jstring list" where
  "invalid_title_keys =
     [js ''page not found'', js ''attention required!'',
      js ''P'' @ [195, 161] @ js ''gina no encontrada'']"

definition get_title :: "host \<Rightarrow> jstring option \<Rightarrow> article option \<Rightarrow> jstring option" where
  "get_title h title0 article =
     (let title = (if title0 \<noteq> None \<and> title0 \<noteq> Some [] then Some (trim (the title0))
                   else (case article of
                           Some a \<Rightarrow> if art_title a \<noteq> [] then Some (trim (art_title a)) else None
                         | None \<Rightarrow> None))
      in case title of
           None \<Rightarrow> None
         | Some t \<Rightarrow>
             if t = [] then None
             else if list_ex (\<lambda>string. str_includes (toLowerCase h t) (toLowerCase h string))
                       invalid_title_keys
             then None else Some t)"

subsection \<open>Authors\<close>

text \<open>
  The class \<open>Author\<close>. Its \<open>createSoup\<close> is the source's placeholder, whose \<open>find_all\<close>
  returns no block and whose \<open>find\<close> returns \<open>null\<close> for every page; a soup is modelled by these
  two results. \<open>scan\<close> stands for the body of the loop of \<open>__iterate_tag\<close> over one block (the
  trigram comparison of its attribute values), which gives the author text of the block or
  nothing.
\<close>

record 'b soup =
  find_all :: "jstring \<Rightarrow> 'b list"
  find_meta_author :: "jstring option"

definition createSoup :: "jstring \<Rightarrow> 'b soup" where
  "createSoup html = \<lparr>find_all = (\<lambda>tag. []), find_meta_author = None\<rparr>"

fun iterate_tag :: "('b \<Rightarrow> jstring option) \<Rightarrow> 'b list \<Rightarrow> jstring option" where
  "iterate_tag scan [] = None"
| "iterate_tag scan (block # blocks) =
     (case scan block of Some final_auth \<Rightarrow> Some final_auth | None \<Rightarrow> iterate_tag scan blocks)"

definition author_selectors :: "'b soup \<Rightarrow> jstring option" where
  "author_selectors soup =
     (case find_meta_author soup of
        None \<Rightarrow> None
      | Some text \<Rightarrow> if text \<noteq> [] then Some (trim text) else None)"

definition author_tags :: "jstring list" where
  "author_tags = [js ''span'', js ''a'', js ''p'', js ''div'']"

definition date_and_invalid_words :: "jstring list" where
  "date_and_invalid_words =
     map js [''January'', ''February'', ''March'', ''April'', ''May'', ''June'', ''July'', ''August'',
             ''September'', ''October'', ''November'', ''December'',
             ''Jan'', ''Feb'', ''Mar'', ''Apr'', ''May'', ''Jun'', ''Jul'', ''Aug'', ''Sep'', ''Oct'',
             ''Nov'', ''Dec'', ''Published'', ''Hours'', ''Ago'']"

definition selector_or_none :: "'b soup \<Rightarrow> jstring list" where
  "selector_or_none soup =
     (case author_selectors soup of None \<Rightarrow> [js ''No - Author''] | Some a \<Rightarrow> [a])"

definition clean_author_name :: "host \<Rightarrow> jstring \<Rightarrow> jstring" where
  "clean_author_name h author =
     (let split_author_name = map (\<lambda>word. toUpperCase h (take 1 word) @ toLowerCase h (drop 1 word))
                                (split_on 32 author);
          cleaned_name = map (replace_all (NSym [(97, 122), (65, 90), (46, 46)]) [32])
                           split_author_name;
          temp = split_on 32 (join [32] cleaned_name);
          author_names = filter (\<lambda>author_word. author_word \<notin> set date_and_invalid_words) temp
      in join [32] author_names)"

fun Author_loop ::
  "host \<Rightarrow> ('b \<Rightarrow> jstring option) \<Rightarrow> 'b soup \<Rightarrow> jstring list \<Rightarrow> jstring list" where
  "Author_loop h scan soup [] = []"
| "Author_loop h scan soup (tag # tags) =
     (case iterate_tag scan (find_all soup tag) of
        None \<Rightarrow> selector_or_none soup
      | Some author \<Rightarrow>
          if author \<noteq> [] then
            (let final_author = clean_author_name h author
             in if final_author = [] then selector_or_none soup else [final_author])
          else Author_loop h scan soup tags)"

definition Author_names :: "host \<Rightarrow> ('b \<Rightarrow> jstring option) \<Rightarrow> jstring \<Rightarrow> jstring list" where
  "Author_names h scan html = Author_loop h scan (createSoup html) author_tags"

text \<open>\<open>__get_authors\<close>; \<open>Author\<close> is given as its outcome, the names or the exception.\<close>

definition get_authors ::
  "jstring list option \<Rightarrow> article option \<Rightarrow> error + jstring list \<Rightarrow> jstring list option" where
  "get_authors author0 article author_extractor =
     (if author0 \<noteq> None \<and> author0 \<noteq> Some [] then author0
      else if article \<noteq> None \<and> art_authors (the article) \<noteq> []
      then Some (art_authors (the article))
      else (case author_extractor of
              Inr names \<Rightarrow> Some names
            | Inl e \<Rightarrow> Some [js ''No - Author'']))"

subsection \<open>Publish date\<close>

text \<open>\<open>parseInt\<close> without a radix: leading white space, a sign, then the longest run of
  digits (hexadecimal after \<open>0x\<close>); \<open>None\<close> is \<open>NaN\<close>.\<close>

definition digit_value :: "int \<Rightarrow> int option" where
  "digit_value c = (if 48 \<le> c \<and> c \<le> 57 then Some (c - 48)
                    else if 97 \<le> c \<and> c \<le> 122 then Some (c - 87)
                    else if 65 \<le> c \<and> c \<le> 90 then Some (c - 55) else None)"

definition digits_of :: "int \<Rightarrow> jstring \<Rightarrow> int list" where
  "digits_of radix s =
     map (\<lambda>c. the (digit_value c))
       (takeWhile (\<lambda>c. case digit_value c of None \<Rightarrow> False | Some v \<Rightarrow> v < radix) s)"

definition parseInt :: "jstring \<Rightarrow> int option" where
  "parseInt s =
     (let s1 = dropWhile is_space s;
          sign = (case s1 of c # t \<Rightarrow> if c = 45 then - 1 else 1 | [] \<Rightarrow> 1);
          s2 = (case s1 of c # t \<Rightarrow> if c = 45 \<or> c = 43 then t else s1 | [] \<Rightarrow> s1);
          hex = (take 2 s2 = js ''0x'' \<or> take 2 s2 = js ''0X'');
          radix = (if hex then 16 else 10);
          ds = digits_of radix (if hex then drop 2 s2 else s2)
      in if ds = [] then None else Some (sign * foldl (\<lambda>a v. radix * a + v) 0 ds))"

definition datePatterns :: "regex list" where
  \<open>datePatterns =
     \<comment> \<open>/(\d{4})[/-](\d{1,2})[/-](\d{1,2})/g, /(\d{1,2})[/-](\d{1,2})[/-](\d{4})/g,
        /(\d{4})(\d{2})(\d{2})/g\<close>
     [seqs [Rep 4 4 (Sym cs_digit), Sym [(47, 47), (45, 45)], Rep 1 2 (Sym cs_digit), Sym [(47, 47), (45, 45)], Rep 1 2 (Sym cs_digit)],
      seqs [Rep 1 2 (Sym cs_digit), Sym [(47, 47), (45, 45)], Rep 1 2 (Sym cs_digit), Sym [(47, 47), (45, 45)], Rep 4 4 (Sym cs_digit)],
      seqs [Rep 4 4 (Sym cs_digit), Rep 2 2 (Sym cs_digit), Rep 2 2 (Sym cs_digit)]]\<close>

text \<open>The date that \<open>extract_date_via_url\<close> builds from the first match of a pattern.\<close>

definition date_of_match :: "host \<Rightarrow> jstring \<Rightarrow> int option" where
  "date_of_match h match =
     (if length match = 8 then
        (case (parseInt (take 4 match), parseInt (take 2 (drop 4 match)),
               parseInt (take 2 (drop 6 match))) of
           (Some year, Some month, Some day) \<Rightarrow> date_local h year (month - 1) day
         | _ \<Rightarrow> None)
      else date_parse h match)"

fun extract_date_loop :: "host \<Rightarrow> jstring \<Rightarrow> regex list \<Rightarrow> jstring option" where
  "extract_date_loop h url [] = None"
| "extract_date_loop h url (pattern # patterns) =
     (case re_first pattern url of
        None \<Rightarrow> extract_date_loop h url patterns
      | Some match \<Rightarrow>
          (case date_of_match h match of
             Some date \<Rightarrow> Some (date_iso h date)
           | None \<Rightarrow> extract_date_loop h url patterns))"

definition extract_date_via_url :: "host \<Rightarrow> jstring \<Rightarrow> jstring option" where
  "extract_date_via_url h url = extract_date_loop h url datePatterns"

text \<open>\<open>main_date_extractor\<close> returns from the callback of \<open>forEach\<close> only, whose result is
  dropped: whatever the page holds, the function itself returns \<open>null\<close>.\<close>

definition main_date_extractor :: "host \<Rightarrow> jstring \<Rightarrow> jstring \<Rightarrow> jstring option" where
  "main_date_extractor h page_source url = None"

text \<open>The published time of the metadata, parsed: \<open>article_date\<close> in \<open>__get_publish_date\<close>. The
  attribute is a string, so the \<open>instanceof Date\<close> branch is not taken.\<close>

definition article_date :: "host \<Rightarrow> article option \<Rightarrow> int option" where
  "article_date h article =
     (case article of
        None \<Rightarrow> None
      | Some a \<Rightarrow>
          (case art_meta_data a of
             Some (Some published_time) \<Rightarrow>
               if published_time \<noteq> [] then date_parse h published_time else None
           | _ \<Rightarrow> None))"

definition get_publish_date ::
  "host \<Rightarrow> jstring \<Rightarrow> article option \<Rightarrow> jstring \<Rightarrow> jstring option" where
  "get_publish_date h url article page_source =
     (case article_date h article of
        Some newspaper3k_pub_date \<Rightarrow>
          (let publish_date = date_iso h newspaper3k_pub_date;
               pub_date_via_url = extract_date_via_url h url
           in case pub_date_via_url of
                Some via_url \<Rightarrow>
                  if take 10 via_url \<noteq> take 10 publish_date then Some via_url
                  else Some publish_date
              | None \<Rightarrow> Some publish_date)
      | None \<Rightarrow> main_date_extractor h page_source url)"

subsection \<open>Images\<close>

definition logo_pattern :: regex where
  \<open>logo_pattern = \<comment> \<open>/logo|favicon|icon|pdf/i\<close>
     alts [ci_lit ''logo'', ci_lit ''favicon'', ci_lit ''icon'', ci_lit ''pdf'']\<close>

definition is_http_string :: "jsval \<Rightarrow> bool" where
  "is_http_string img = (case img of JStr s \<Rightarrow> startsWith s (js ''http'') | _ \<Rightarrow> False)"

definition string_of :: "jsval \<Rightarrow> jstring" where
  "string_of v = (case v of JStr s \<Rightarrow> s | _ \<Rightarrow> [])"

definition get_images :: "article option \<Rightarrow> jstring option \<Rightarrow> jstring list" where
  "get_images article clean_html =
     (case article of
        None \<Rightarrow> []
      | Some a \<Rightarrow>
          (let images = (if truthy (art_top_image a)
                         then (case art_top_image a of JArr xs \<Rightarrow> xs | v \<Rightarrow> [v])
                         else [])
           in if images \<noteq> [] then
                (case map string_of (filter is_http_string images) of
                   [] \<Rightarrow> []
                 | first # others \<Rightarrow>
                     if re_test logo_pattern first then [] else first # others)
              else []))"

subsection \<open>Content\<close>

definition fqdn_with_selectors :: "jstring list" where
  "fqdn_with_selectors =
     map js [''sunstar.com.ph'', ''showbizportal.net'', ''therebelsweetheart.com'',
             ''lifeiskulayful.com'', ''bilyonaryo.com'']"

definition fqdn_selectors :: "host \<Rightarrow> jstring \<Rightarrow> jstring \<Rightarrow> jstring option" where
  "fqdn_selectors h page_source fqdn =
     (if fqdn \<in> set fqdn_with_selectors
      then map_option clean_extracted_content (selector_text h fqdn page_source)
      else None)"

text \<open>\<open>__get_and_validate_content_parser\<close> returns the content and sets \<open>this.parser\<close>; the
  model returns both. Its argument \<open>content\<close> is the object \<open>{text: ...}\<close>, never \<open>null\<close>.\<close>

definition selector_fallback ::
  "host \<Rightarrow> jstring option \<Rightarrow> jstring \<Rightarrow> jstring option \<times> jstring option" where
  "selector_fallback h fqdn html =
     (case (if html \<noteq> [] \<and> fqdn \<noteq> None \<and> fqdn \<noteq> Some []
            then fqdn_selectors h html (the fqdn) else None) of
        Some article_content \<Rightarrow> (Some article_content, Some (js ''Selector Parser''))
      | None \<Rightarrow> (None, None))"

definition get_and_validate_content_parser ::
  "host \<Rightarrow> jstring option \<Rightarrow> jstring \<Rightarrow> jstring option \<Rightarrow> article option
     \<Rightarrow> jstring option \<times> jstring option" where
  "get_and_validate_content_parser h fqdn html content_text article =
     (let by_selector = (if fqdn \<noteq> None \<and> fqdn \<noteq> Some [] \<and> html \<noteq> []
                         then fqdn_selectors h html (the fqdn) else None)
      in if by_selector \<noteq> None \<and> by_selector \<noteq> Some []
         then (by_selector, Some (js ''Selector Parser''))
         else if article \<noteq> None \<and> art_text (the article) \<noteq> []
         then (Some (art_text (the article)), Some (js ''NewsPaper3k Parser''))
         else if content_text \<noteq> None \<and> content_text \<noteq> Some []
         then (content_text, Some (js ''Content Parser''))
         else selector_fallback h fqdn html)"

definition get_content :: "jstring option \<Rightarrow> jstring option" where
  "get_content content0 =
     (case content0 of
        Some c \<Rightarrow> Some (clean_extracted_content (trim (replace_all (cu 39) [] c)))
      | None \<Rightarrow> None)"

subsection \<open>The constructor and the response\<close>

definition base64Pattern :: regex where
  \<open>base64Pattern = \<comment> \<open>/^[A-Za-z0-9+/]*={0,2}$/\<close>
     seqs [Bol False, Star (Sym [(65, 90), (97, 122), (48, 57), (43, 43), (47, 47)]),
           Rep 0 2 (lit ''=''), Eol False]\<close>

definition extract_article_sections :: "host \<Rightarrow> jstring \<Rightarrow> jstring list option" where
  "extract_article_sections h soup =
     (case section_meta h soup of
        None \<Rightarrow> None
      | Some metaContent \<Rightarrow>
          if metaContent \<noteq> [] \<and> trim metaContent \<noteq> []
          then Some (filter (\<lambda>s. s \<noteq> []) (map trim (split_on 44 metaContent)))
          else None)"

text \<open>The fields of the instance that the response reads, and \<open>html\<close> and \<open>parser\<close>; the
  names have the prefix \<open>ne_\<close>. \<open>lang\<close>, \<open>timeout\<close>, \<open>raw_html\<close> and
  \<open>is_published_date_correct\<close> are written by the constructor and read nowhere.\<close>

record news_extract =
  ne_url :: jstring
  ne_html :: jstring
  ne_fqdn :: "jstring option"
  ne_scraped :: bool
  ne_parser :: "jstring option"
  ne_title :: "jstring option"
  ne_authors :: "jstring list option"
  ne_publish_date :: "jstring option"
  ne_images :: "jstring list option"
  ne_content :: "jstring option"
  ne_videos :: "(jstring \<times> jstring) list"
  ne_language :: jstring
  ne_article_sections :: "jstring list option"

text \<open>\<open>new NewsExtract(url, source, js, lang, timeout, fqdn, regex)\<close>. The two \<open>throw\<close>s of
  the constructor are its errors; the functions called in its \<open>try\<close> block catch their own
  exceptions, so the block runs to its end and sets \<open>scraped\<close>.\<close>

definition NewsExtract ::
  "host \<Rightarrow> ('b \<Rightarrow> jstring option) \<Rightarrow> jstring \<Rightarrow> jstring option \<Rightarrow> jstring option
     \<Rightarrow> error + news_extract" where
  "NewsExtract h scan url source fqdn =
     (if url = [] then Inl (Error (js ''Invalid URL passed''))
      else let html = (case source of
                         None \<Rightarrow> []
                       | Some src \<Rightarrow>
                           if re_test base64Pattern src \<and> 100 < length src
                           then (case atob h src of Some decoded \<Rightarrow> decoded | None \<Rightarrow> src)
                           else src)
           in if html = [] then Inl (Error (js ''No Page Source passed''))
              else let clean_html = cleaned_html h html;
                       article = get_newspaper3k_extract h html;
                       title0 = (case article of
                                   Some a \<Rightarrow> if art_title a \<noteq> [] then Some (art_title a) else None
                                 | None \<Rightarrow> None);
                       authors0 = (case article of Some a \<Rightarrow> Some (art_authors a) | None \<Rightarrow> None);
                       text0 = (case article of
                                  Some a \<Rightarrow> if art_text a \<noteq> [] then Some (art_text a) else None
                                | None \<Rightarrow> None);
                       content_instance =
                         get_and_validate_content_parser h fqdn html text0 article;
                       language = (case article of
                                     Some a \<Rightarrow> if art_meta_lang a \<noteq> [] then art_meta_lang a
                                               else js ''en''
                                   | None \<Rightarrow> js ''en'')
                   in Inr \<lparr>ne_url = url, ne_html = html, ne_fqdn = fqdn, ne_scraped = True,
                           ne_parser = snd content_instance,
                           ne_title = get_title h title0 article,
                           ne_authors = get_authors authors0 article
                                          (Inr (Author_names h scan html)),
                           ne_publish_date = get_publish_date h url article html,
                           ne_images = Some (get_images article clean_html),
                           ne_content = get_content (fst content_instance),
                           ne_videos = (case article of Some a \<Rightarrow> art_movies a | None \<Rightarrow> []),
                           ne_language = (if language = [] then js ''en'' else language),
                           ne_article_sections =
                             extract_article_sections h (or_else clean_html [])\<rparr>)"

record news_extract_data =
  article_title :: "jstring option"
  article_website_name :: jstring
  article_fqdn :: jstring
  article_section :: "jstring list option"
  article_authors :: "jstring list option"
  article_published_date :: "jstring option"
  article_images :: "jstring list option"
  article_content :: "jstring option"
  article_videos :: "(jstring \<times> jstring) list"
  article_language :: jstring
  article_status :: jstring
  article_error_status :: "jstring option"
  article_url :: jstring

definition get_fqdn :: "host \<Rightarrow> jstring \<Rightarrow> jstring" where
  "get_fqdn h url = (case url_hostname h url of Some hostname \<Rightarrow> hostname | None \<Rightarrow> [])"

definition get_scraper_api_response :: "host \<Rightarrow> news_extract \<Rightarrow> error + news_extract_data" where
  "get_scraper_api_response h this =
     (if \<not> ne_scraped this then Inl (Error (js ''Article not scraped''))
      else Inr \<lparr>article_title = ne_title this,
               article_website_name = [],
               article_fqdn = (if ne_fqdn this \<noteq> None \<and> ne_fqdn this \<noteq> Some []
                               then the (ne_fqdn this) else get_fqdn h (ne_url this)),
               article_section = ne_article_sections this,
               article_authors = ne_authors this,
               article_published_date = ne_publish_date this,
               article_images = ne_images this,
               article_content = ne_content this,
               article_videos = ne_videos this,
               article_language = ne_language this,
               article_status = (if ne_content this \<noteq> None \<and> ne_content this \<noteq> Some []
                                 then js ''Done'' else js ''Error''),
               article_error_status = (if ne_content this \<noteq> None \<and> ne_content this \<noteq> Some []
                                       then None else Some (js ''No Content'')),
               article_url = ne_url this\<rparr>)"

section \<open>GeneralParser\<close>

subsection \<open>Content score\<close>

text \<open>What \<open>calculateContentScore\<close> reads of an element: its \<open>className\<close>, and the numbers
  of its descendant \<open>p\<close> and \<open>a\<close> elements (\<open>querySelectorAll\<close>). The \<open>id\<close> is part of the
  element, though the function does not read it.\<close>

record element =
  className :: jstring
  el_id :: jstring
  paragraphs :: nat
  links :: nat

definition contentKeywords :: "jstring list" where
  "contentKeywords = map js [''content'', ''article'', ''post'', ''story'', ''text'', ''body'']"

definition navKeywords :: "jstring list" where
  "navKeywords = map js [''nav'', ''menu'', ''sidebar'', ''footer'', ''header'', ''ads'', ''comment'']"

definition linkRatio :: "element \<Rightarrow> jstring \<Rightarrow> dbl" where
  "linkRatio el text =
     d_div (d_of_nat (links el)) (d_max (d_div (d_of_nat (length text)) (100, 0)) (1, 0))"

definition calculateContentScore :: "(jstring \<Rightarrow> jstring) \<Rightarrow> element \<Rightarrow> jstring \<Rightarrow> dbl" where
  "calculateContentScore lower el text =
     (let score0 = int (length text);
          score1 = score0 + int (paragraphs el) * 50;
          cls = lower (className el);
          score2 = fold (\<lambda>keyword score. if str_includes cls keyword then score + 100 else score)
                     contentKeywords score1;
          score3 = fold (\<lambda>keyword score. if str_includes cls keyword then score - 200 else score)
                     navKeywords score2;
          score4 = (if d_less (round_frac 3 10) (linkRatio el text)
                    then d_sub (d_norm (score3, 0)) (d_mul (linkRatio el text) (100, 0))
                    else d_norm (score3, 0))
      in d_max (0, 0) score4)"

subsection \<open>Title\<close>

text \<open>
  What the sources of \<open>extractTitle\<close> find in the document: the \<open>content\<close> attributes of the
  two \<open>meta\<close> elements; the JSON-LD script (absent, not parsable or not an object, or the
  values of \<open>headline\<close>, \<open>name\<close> and \<open>title\<close>); the texts of the elements of the selectors
  4, 5, 8 and 9; the texts of all \<open>h1\<close> elements; the text of \<open>title\<close>.
\<close>

datatype json_ld = NoScript | NoData | Data jsval jsval jsval

record title_doc =
  og_title :: "jstring option"
  twitter_title :: "jstring option"
  ld_json :: json_ld
  h1_title :: "jstring option"
  h1_in_article :: "jstring option"
  h1_texts :: "jstring list"
  title_text :: "jstring option"
  title_class :: "jstring option"
  first_heading :: "jstring option"

definition of_string :: "jstring option \<Rightarrow> jsval" where
  "of_string a = (case a of None \<Rightarrow> JUndefined | Some s \<Rightarrow> JStr s)"

text \<open>\<open>title.split(...)[0]\<close> for the class of \<open>|\<close>, \<open>-\<close>, U+2013 and U+2014: the text
  before the first separator.\<close>

definition before_separator :: "jstring \<Rightarrow> jstring" where
  "before_separator title =
     takeWhile (\<lambda>c. \<not> in_cset c [(124, 124), (45, 45), (8211, 8211), (8212, 8212)]) title"

definition titleSources :: "title_doc \<Rightarrow> jsval list" where
  "titleSources doc =
     [of_string (og_title doc),
      of_string (twitter_title doc),
      (case ld_json doc of
         Data headline name title \<Rightarrow>
           if truthy headline then headline else if truthy name then name else title
       | _ \<Rightarrow> JNull),
      of_string (map_option trim (h1_title doc)),
      of_string (map_option trim (h1_in_article doc)),
      (case filter (\<lambda>text. text \<noteq> [] \<and> 10 < length text \<and> length text < 200)
              (map trim (h1_texts doc)) of
         text # _ \<Rightarrow> JStr text | [] \<Rightarrow> JNull),
      (case map_option trim (title_text doc) of
         Some title \<Rightarrow> if title \<noteq> [] then JStr (trim (before_separator title)) else JNull
       | None \<Rightarrow> JNull),
      of_string (map_option trim (title_class doc)),
      of_string (map_option trim (first_heading doc))]"

text \<open>The test \<open>title && title.length > 3 && title.length < 300\<close>.\<close>

fun valid_title :: "jsval \<Rightarrow> bool" where
  "valid_title (JStr s) = (s \<noteq> [] \<and> 3 < length s \<and> length s < 300)"
| "valid_title (JArr xs) = (3 < length xs \<and> length xs < 300)"
| "valid_title v = False"

fun first_valid_title :: "jsval list \<Rightarrow> jsval" where
  "first_valid_title [] = JStr (js ''Untitled Page'')"
| "first_valid_title (title # sources) =
     (if valid_title title then title else first_valid_title sources)"

definition extractTitle :: "title_doc \<Rightarrow> jsval" where
  "extractTitle doc = first_valid_title (titleSources doc)"

subsection \<open>Language\<close>

text \<open>The language of \<open>extractMetadata\<close>, from the \<open>lang\<close> attribute of \<open>html[lang]\<close> and
  the \<open>content\<close> attribute of the content-language \<open>meta\<close> element; \<open>parse\<close> puts it into
  the metadata of its result when the option \<open>includeMetadata\<close> is set, and leaves the
  metadata empty otherwise.\<close>

definition metadata_language :: "jstring option \<Rightarrow> jstring option \<Rightarrow> jstring" where
  "metadata_language html_lang content_language =
     or_else (map_option (\<lambda>lang. case split_on 45 lang of first # _ \<Rightarrow> first | [] \<Rightarrow> []) html_lang)
       (or_else content_language (js ''en''))"

definition parse_language :: "bool \<Rightarrow> jstring option \<Rightarrow> jstring option \<Rightarrow> jstring option" where
  "parse_language includeMetadata html_lang content_language =
     (if includeMetadata then Some (metadata_language html_lang content_language) else None)"

section \<open>Example inputs\<close>

text \<open>A page and a host on which the definitions are evaluated. The host knows the two
  dates of the example and upper- and lower-cases ASCII letters.\<close>

definition example_page :: page where
  "example_page =
     \<lparr>pg_title = Some (js ''Harbour bridge reopens''),
      pg_content = [js ''The bridge reopens today''],
      pg_html_lang = Some (js ''en-US''),
      pg_published = Some (Some (js ''2024-01-05T00:00:00Z'')),
      pg_authors = [],
      pg_image = Some (Some (js ''https://cdn.x/photo.jpg''), None),
      pg_videos = []\<rparr>"

definition ascii_lower :: "jstring \<Rightarrow> jstring" where
  "ascii_lower s = map (\<lambda>c. if 65 \<le> c \<and> c \<le> 90 then c + 32 else c) s"

definition example_host :: host where
  "example_host =
     \<lparr>toLowerCase = ascii_lower,
      toUpperCase = ascii_upper,
      atob = (\<lambda>s. None),
      parse_page = (\<lambda>html. Some example_page),
      cleaned_html = (\<lambda>html. Some html),
      section_meta = (\<lambda>html. None),
      selector_text = (\<lambda>fqdn html. None),
      date_parse = (\<lambda>s. if s = js ''2024-01-05T00:00:00Z'' then Some 1704412800000
                          else if s = js ''2024-01-06'' then Some 1704499200000 else None),
      date_local = (\<lambda>y m d. None),
      date_iso = (\<lambda>t. if t = 1704412800000 then js ''2024-01-05T00:00:00.000Z''
                        else if t = 1704499200000 then js ''2024-01-06T00:00:00.000Z''
                        else js ''1970-01-01T00:00:00.000Z''),
      url_hostname = (\<lambda>url. Some (js ''news.example''))\<rparr>"

definition example_url :: jstring where
  "example_url = js ''https://news.example/2024-01-06/bridge''"

definition example_source :: jstring where
  "example_source = js ''<html lang=en-US><title>Harbour bridge reopens</title></html>''"

definition example_article :: article where
  "example_article =
     \<lparr>art_title = js ''Harbour bridge reopens'',
      art_text = js ''The bridge reopens today'',
      art_meta_lang = js ''en-US'',
      art_meta_data = Some (Some (js ''2024-01-05T00:00:00Z'')),
      art_authors = [js ''No - Author''],
      art_top_image = JStr (js ''https://cdn.x/photo.jpg''),
      art_movies = []\<rparr>"

definition example_extract :: "error + news_extract" where
  "example_extract =
     NewsExtract example_host (\<lambda>block :: unit. None) example_url (Some example_source) None"

definition example_instance :: news_extract where
  "example_instance =
     \<lparr>ne_url = example_url, ne_html = example_source, ne_fqdn = None, ne_scraped = True,
      ne_parser = Some (js ''NewsPaper3k Parser''),
      ne_title = Some (js ''Harbour bridge reopens''),
      ne_authors = Some [js ''No - Author''],
      ne_publish_date = Some (js ''2024-01-06T00:00:00.000Z''),
      ne_images = Some [js ''https://cdn.x/photo.jpg''],
      ne_content = Some (js ''The bridge reopens today''),
      ne_videos = [], ne_language = js ''en-US'', ne_article_sections = None\<rparr>"

definition empty_title_doc :: title_doc where
  "empty_title_doc =
     \<lparr>og_title = None, twitter_title = None, ld_json = NoScript, h1_title = None,
      h1_in_article = None, h1_texts = [], title_text = Some (js ''FAQ''), title_class = None,
      first_heading = None\<rparr>"

text \<open>The declared language of a page: the \<open>lang\<close> attribute of \<open>html[lang]\<close>, if the page
  can be queried and the attribute is not empty.\<close>

definition declared_language :: "host \<Rightarrow> jstring \<Rightarrow> jstring option" where
  "declared_language h html =
     (case parse_page h html of
        None \<Rightarrow> None
      | Some doc \<Rightarrow> (case pg_html_lang doc of None \<Rightarrow> None
                     | Some l \<Rightarrow> if l \<noteq> [] then Some l else None))"

text \<open>The words of the image rule, and what the rule reads of the top image: the elements
  of an array, or the value itself if it is truthy.\<close>

definition logo_words :: "string list" where
  "logo_words = [''logo'', ''favicon'', ''icon'', ''pdf'']"

definition names_logo :: "jstring \<Rightarrow> bool" where
  "names_logo url = list_ex (\<lambda>w. str_includes (ascii_lower url) (js w)) logo_words"

definition top_images :: "jsval \<Rightarrow> jsval list" where
  "top_images v = (case v of JArr xs \<Rightarrow> xs | _ \<Rightarrow> if truthy v then [v] else [])"

definition logo_article :: article where
  "logo_article = example_article
     \<lparr>art_top_image := JArr [JStr (js ''https://cdn.x/logo.png''), JStr (js ''https://cdn.x/photo.jpg'')]\<rparr>"

text \<open>The parts of the content score.\<close>

definition keyword_count :: "jstring list \<Rightarrow> jstring \<Rightarrow> nat" where
  "keyword_count keywords s = length (filter (\<lambda>keyword. str_includes s keyword) keywords)"

definition link_penalty :: "element \<Rightarrow> jstring \<Rightarrow> dbl option" where
  "link_penalty el text =
     (if d_less (round_frac 3 10) (linkRatio el text)
      then Some (d_mul (linkRatio el text) (100, 0)) else None)"

text \<open>The score as the specification words it, with the keywords looked up in the class
  and in the id.\<close>

definition claimed_content_score :: "(jstring \<Rightarrow> jstring) \<Rightarrow> element \<Rightarrow> jstring \<Rightarrow> dbl" where
  "claimed_content_score lower el text =
     (let class_or_id = (\<lambda>keywords. length (filter (\<lambda>keyword.
                            str_includes (lower (className el)) keyword \<or>
                            str_includes (lower (el_id el)) keyword) keywords));
          base = int (length text) + 50 * int (paragraphs el)
                 + 100 * int (class_or_id contentKeywords) - 200 * int (class_or_id navKeywords)
      in d_max (0, 0)
           (case link_penalty el text of
              Some penalty \<Rightarrow> d_sub (d_norm (base, 0)) penalty
            | None \<Rightarrow> d_norm (base, 0)))"

definition id_only_element :: element where
  "id_only_element = \<lparr>className = [], el_id = js ''content'', paragraphs = 0, links = 0\<rparr>"

definition nav_element :: element where
  "nav_element = \<lparr>className = js ''Post-Body nav'', el_id = [], paragraphs = 2, links = 3\<rparr>"

text \<open>The vocabulary of the author comparison (\<open>AuthorVariables.author_keys\<close>), a token of
  33 characters and its prefix of 17, and the notions in which the properties of \<open>Compare\<close>
  are stated: the indices stored for a trigram, the tokens that contain a trigram, the
  invariant of the index, and the number of trigrams of a candidate found in a token.\<close>

definition author_keys :: "jstring list" where
  "author_keys = [js ''AUTHOR'', js ''BYLINE'']"

text \<open>A vocabulary with an empty string, a repeated token and a token in lower case.\<close>

definition example_vocabulary :: "jstring list" where
  "example_vocabulary = [js ''Author'', js '''', js ''Author'', js ''editor'']"

definition long_token :: jstring where
  "long_token = js ''ABCDEFGHIJKLMNOPQRSTUVWXYZ0123456''"

definition prefix_candidate :: jstring where
  "prefix_candidate = js ''ABCDEFGHIJKLMNOPQ''"

definition idxs :: "compare \<Rightarrow> jstring \<Rightarrow> nat list" where
  "idxs st t = (case trigrams st t of None \<Rightarrow> [] | Some l \<Rightarrow> l)"

definition tokens_with :: "(jstring \<Rightarrow> jstring) \<Rightarrow> jstring list \<Rightarrow> jstring \<Rightarrow> nat set" where
  "tokens_with up wl t = {i. i < length wl \<and> t \<in> set (to_trigram up (wl ! i))}"

definition compare_inv :: "(jstring \<Rightarrow> jstring) \<Rightarrow> compare \<Rightarrow> bool" where
  "compare_inv up st \<longleftrightarrow>
     length (word_trigram_count st) = length (words st) \<and>
     length (trigrams_count st) = length (words st) \<and>
     distinct (words st) \<and> [] \<notin> set (words st) \<and>
     (\<forall>i < length (words st). word_trigram_count st ! i = length (to_trigram up (words st ! i))) \<and>
     (\<forall>t. distinct (idxs st t) \<and> set (idxs st t) = tokens_with up (words st) t)"

text \<open>The state while \<open>__set\<close> runs through the trigrams of the word it has pushed: \<open>wl\<close> are
  the earlier words, \<open>seen\<close> the trigrams of the new word handled so far.\<close>

definition set_inv ::
  "(jstring \<Rightarrow> jstring) \<Rightarrow> jstring list \<Rightarrow> jstring \<Rightarrow> jstring list \<Rightarrow> compare \<Rightarrow> bool" where
  "set_inv up wl word seen st \<longleftrightarrow>
     words st = wl @ [word] \<and>
     length (word_trigram_count st) = Suc (length wl) \<and>
     length (trigrams_count st) = Suc (length wl) \<and>
     (\<forall>i < length wl. word_trigram_count st ! i = length (to_trigram up (wl ! i))) \<and>
     word_trigram_count st ! length wl = length seen \<and>
     (\<forall>t. distinct (idxs st t) \<and>
          set (idxs st t) = tokens_with up wl t \<union> (if t \<in> set seen then {length wl} else {}))"

text \<open>What \<open>eval\<close> leaves unchanged in a state.\<close>

definition same_index :: "compare \<Rightarrow> compare \<Rightarrow> bool" where
  "same_index s s' \<longleftrightarrow>
     words s' = words s \<and> trigrams s' = trigrams s \<and>
     word_trigram_count s' = word_trigram_count s \<and>
     length (trigrams_count s') = length (trigrams_count s)"

definition trigram_matches :: "(jstring \<Rightarrow> jstring) \<Rightarrow> jstring \<Rightarrow> jstring \<Rightarrow> nat" where
  "trigram_matches up candidate token =
     length (filter (\<lambda>t. t \<in> set (to_trigram up token)) (to_trigram up candidate))"

definition token_percentage :: "(jstring \<Rightarrow> jstring) \<Rightarrow> jstring \<Rightarrow> jstring \<Rightarrow> jsnum" where
  "token_percentage up candidate token =
     percentage (trigram_matches up candidate token) (length (to_trigram up token))"

definition scored :: "(jstring \<Rightarrow> jstring) \<Rightarrow> jstring \<Rightarrow> jstring \<Rightarrow> match_result" where
  "scored up candidate token =
     \<lparr>res_word = token, res_matches = trigram_matches up candidate token,
      res_similarity = show_rounded (token_percentage up candidate token) @ js ''%''\<rparr>"

text \<open>A headline with a run of spaces, as the text of an indented element has, and the
  code units of a string that are not white space.\<close>

definition spaced_headline :: jstring where
  "spaced_headline = js ''Mayor           wins''"

definition non_space :: "jstring \<Rightarrow> jstring" where
  "non_space s = filter (\<lambda>c. \<not> is_space c) s"

section \<open>Properties\<close>

lemma js_inject: "js a = js b \<longleftrightarrow> a = b"
  by (simp add: js_def inj_map_eq_map[OF inj_of_char])

subsection \<open>The fields that the constructor sets\<close>

lemma NewsExtract_fields:
  assumes "NewsExtract h scan url source fqdn = Inr this"
  shows "ne_html this \<noteq> []"
    and "ne_scraped this"
    and "ne_url this = url"
    and "ne_authors this =
           get_authors (map_option art_authors (get_newspaper3k_extract h (ne_html this)))
             (get_newspaper3k_extract h (ne_html this))
             (Inr (Author_names h scan (ne_html this)))"
    and "ne_publish_date this =
           get_publish_date h url (get_newspaper3k_extract h (ne_html this)) (ne_html this)"
    and "ne_images this =
           Some (get_images (get_newspaper3k_extract h (ne_html this))
                   (cleaned_html h (ne_html this)))"
    and "ne_language this =
           (case get_newspaper3k_extract h (ne_html this) of
              Some a \<Rightarrow> if art_meta_lang a \<noteq> [] then art_meta_lang a else js ''en''
            | None \<Rightarrow> js ''en'')"
proof -
  from assms have u: "url \<noteq> []"
    by (auto simp: NewsExtract_def split: if_splits)
  define html where "html =
    (case source of None \<Rightarrow> []
     | Some src \<Rightarrow> if re_test base64Pattern src \<and> 100 < length src
                   then (case atob h src of Some decoded \<Rightarrow> decoded | None \<Rightarrow> src) else src)"
  from assms u have nz: "html \<noteq> []"
    by (auto simp: NewsExtract_def Let_def html_def split: if_splits)
  from assms u nz have t: "this = (let clean_html = cleaned_html h html;
                       article = get_newspaper3k_extract h html;
                       title0 = (case article of
                                   Some a \<Rightarrow> if art_title a \<noteq> [] then Some (art_title a) else None
                                 | None \<Rightarrow> None);
                       authors0 = (case article of Some a \<Rightarrow> Some (art_authors a) | None \<Rightarrow> None);
                       text0 = (case article of
                                  Some a \<Rightarrow> if art_text a \<noteq> [] then Some (art_text a) else None
                                | None \<Rightarrow> None);
                       content_instance =
                         get_and_validate_content_parser h fqdn html text0 article;
                       language = (case article of
                                     Some a \<Rightarrow> if art_meta_lang a \<noteq> [] then art_meta_lang a
                                               else js ''en''
                                   | None \<Rightarrow> js ''en'')
                   in \<lparr>ne_url = url, ne_html = html, ne_fqdn = fqdn, ne_scraped = True,
                           ne_parser = snd content_instance,
                           ne_title = get_title h title0 article,
                           ne_authors = get_authors authors0 article
                                          (Inr (Author_names h scan html)),
                           ne_publish_date = get_publish_date h url article html,
                           ne_images = Some (get_images article clean_html),
                           ne_content = get_content (fst content_instance),
                           ne_videos = (case article of Some a \<Rightarrow> art_movies a | None \<Rightarrow> []),
                           ne_language = (if language = [] then js ''en'' else language),
                           ne_article_sections =
                             extract_article_sections h (or_else clean_html [])\<rparr>)"
    unfolding NewsExtract_def html_def [symmetric] by (simp only: if_False Let_def sum.inject)
  have hh: "ne_html this = html" by (subst t) (simp add: Let_def)
  show "ne_html this \<noteq> []" using hh nz by simp
  show "ne_scraped this" by (subst t) (simp add: Let_def)
  show "ne_url this = url" by (subst t) (simp add: Let_def)
  show "ne_authors this =
           get_authors (map_option art_authors (get_newspaper3k_extract h (ne_html this)))
             (get_newspaper3k_extract h (ne_html this))
             (Inr (Author_names h scan (ne_html this)))"
    unfolding hh by (subst t) (simp add: Let_def map_option_case)
  show "ne_publish_date this =
           get_publish_date h url (get_newspaper3k_extract h (ne_html this)) (ne_html this)"
    unfolding hh by (subst t) (simp add: Let_def)
  show "ne_images this =
           Some (get_images (get_newspaper3k_extract h (ne_html this))
                   (cleaned_html h (ne_html this)))"
    unfolding hh by (subst t) (simp add: Let_def)
  show "ne_language this =
           (case get_newspaper3k_extract h (ne_html this) of
              Some a \<Rightarrow> if art_meta_lang a \<noteq> [] then art_meta_lang a else js ''en''
            | None \<Rightarrow> js ''en'')"
    unfolding hh by (subst t) (auto simp: Let_def js_def split: option.splits)
qed

lemma example_extract_value: "example_extract = Inr example_instance"
  by code_simp

subsection \<open>The status of a result\<close>

text \<open>
  C1. For every call of \<open>get_scraper_api_response\<close> that returns a record, the status of
  the record is \<open>"Done"\<close> if and only if its content is a non-empty string; when the content
  is \<open>null\<close> or empty, the status is \<open>"Error"\<close>.
\<close>

theorem status_done_iff_content:
  assumes "get_scraper_api_response h this = Inr r"
  shows "(article_status r = js ''Done'' \<longleftrightarrow> (\<exists>c. article_content r = Some c \<and> c \<noteq> []))
       \<and> ((article_content r = None \<or> article_content r = Some []) \<longrightarrow>
            article_status r = js ''Error'')"
  using assms
  by (auto simp: get_scraper_api_response_def js_inject split: if_splits)

theorem status_done_iff_content_witness:
  "(case get_scraper_api_response example_host example_instance of
      Inr r \<Rightarrow> article_status r = js ''Done'' \<and> article_content r \<noteq> None
    | Inl e \<Rightarrow> False)"
proof -
  obtain r where r: "get_scraper_api_response example_host example_instance = Inr r"
    by (simp add: get_scraper_api_response_def example_instance_def)
  have c: "article_content r =
             Some (js ''The bridge reopens today'')"
    using r by (auto simp: get_scraper_api_response_def example_instance_def)
  have "article_status r = js ''Done''"
    using status_done_iff_content [OF r] c by (simp add: js_def)
  with r c show ?thesis by simp
qed

subsection \<open>The published date\<close>

text \<open>
  C2. When the metadata of the article holds a published time that parses to a date and
  \<open>extract_date_via_url\<close> finds a date in the URL, \<open>__get_publish_date\<close> returns the
  date of the URL if the first ten characters of the two ISO strings differ, and the
  metadata date otherwise. The witness is the example of the specification: the published
  time \<open>2024-01-05T00:00:00Z\<close> and a URL with \<open>2024-01-06\<close> give the date of the URL.
\<close>

theorem url_date_overrides_metadata_date:
  assumes "article_date h article = Some metadata_date"
      and "extract_date_via_url h url = Some url_date"
  shows "get_publish_date h url article page_source =
           Some (if take 10 url_date \<noteq> take 10 (date_iso h metadata_date) then url_date
                 else date_iso h metadata_date)"
  using assms by (simp add: get_publish_date_def Let_def)

theorem url_date_overrides_metadata_date_witness:
  "article_date example_host (Some example_article) = Some 1704412800000
   \<and> date_iso example_host 1704412800000 = js ''2024-01-05T00:00:00.000Z''
   \<and> extract_date_via_url example_host example_url = Some (js ''2024-01-06T00:00:00.000Z'')
   \<and> get_publish_date example_host example_url (Some example_article) example_source =
       Some (js ''2024-01-06T00:00:00.000Z'')"
proof -
  have d: "article_date example_host (Some example_article) = Some 1704412800000"
    by code_simp
  have i: "date_iso example_host 1704412800000 = js ''2024-01-05T00:00:00.000Z''"
    by (simp add: example_host_def)
  have u: "extract_date_via_url example_host example_url = Some (js ''2024-01-06T00:00:00.000Z'')"
    by code_simp
  have "take 10 (js ''2024-01-06T00:00:00.000Z'') \<noteq> take 10 (js ''2024-01-05T00:00:00.000Z'')"
    by (simp add: js_def)
  with url_date_overrides_metadata_date [OF d u, of example_source] d i u
  show ?thesis by simp
qed

subsection \<open>Fields that no source resolves\<close>




text \<open>The constructor throws on an empty URL and on an empty page source, and on nothing
  else: for every other input it returns an instance.\<close>

lemma NewsExtract_returns:
  "(\<exists>this. NewsExtract h scan url source fqdn = Inr this)
   \<or> NewsExtract h scan url source fqdn = Inl (Error (js ''Invalid URL passed''))
   \<or> NewsExtract h scan url source fqdn = Inl (Error (js ''No Page Source passed''))"
  by (simp add: NewsExtract_def Let_def)




subsection \<open>The title of GeneralParser\<close>

lemma first_valid_title_none:
  "\<forall>t \<in> set ts. \<not> valid_title t \<Longrightarrow> first_valid_title ts = JStr (js ''Untitled Page'')"
  by (induction ts) auto

lemma first_valid_title_cases:
  "first_valid_title ts = JStr (js ''Untitled Page'') \<or>
   (first_valid_title ts \<in> set ts \<and> valid_title (first_valid_title ts))"
  by (induction ts) auto

text \<open>
  C9, as the code has it. If no source of \<open>extractTitle\<close> yields a value that passes its
  test (truthy, of length above 3 and below 300; the values of the first three sources are
  tested as they are, the others trimmed), the title is the literal \<open>"Untitled Page"\<close>.
\<close>

theorem untitled_page_fallback:
  assumes "\<forall>title \<in> set (titleSources doc). \<not> valid_title title"
  shows "extractTitle doc = JStr (js ''Untitled Page'')"
  using assms by (simp add: extractTitle_def first_valid_title_none)

theorem untitled_page_fallback_witness:
  "filter valid_title (titleSources empty_title_doc) = []
   \<and> extractTitle empty_title_doc = JStr (js ''Untitled Page'')"
proof -
  have h: "\<forall>title \<in> set (titleSources empty_title_doc). \<not> valid_title title"
    by (simp add: titleSources_def empty_title_doc_def of_string_def before_separator_def
          trim_def is_space_def cs_space_def js_def)
  then have "filter valid_title (titleSources empty_title_doc) = []"
    by (simp add: filter_empty_conv)
  with untitled_page_fallback [OF h] show ?thesis by simp
qed

theorem untitled_literal_counterexample:
  "titleSources empty_title_doc =
     [JUndefined, JUndefined, JNull, JUndefined, JUndefined, JNull, JStr (js ''FAQ''),
      JUndefined, JUndefined]
   \<and> extractTitle empty_title_doc = JStr (js ''Untitled Page'')
   \<and> js ''Untitled Page'' \<noteq> js ''Untitled''"
proof -
  have s: "titleSources empty_title_doc =
     [JUndefined, JUndefined, JNull, JUndefined, JUndefined, JNull, JStr (js ''FAQ''),
      JUndefined, JUndefined]"
    by (simp add: titleSources_def empty_title_doc_def of_string_def before_separator_def
          trim_def is_space_def cs_space_def js_def)
  have "extractTitle empty_title_doc = JStr (js ''Untitled Page'')"
    by (simp add: extractTitle_def s js_def)
  with s show ?thesis by (simp add: js_def)
qed

subsection \<open>The language\<close>

lemma or_else_nonempty: "b \<noteq> [] \<Longrightarrow> or_else a b \<noteq> []"
  by (auto simp: or_else_def split: option.splits)

lemma first_of_split: "(case split_on c s of first # _ \<Rightarrow> first | [] \<Rightarrow> []) = takeWhile (\<lambda>x. x \<noteq> c) s"
  by (induction s) (auto split: list.splits)

lemma extract_meta_lang:
  "get_newspaper3k_extract h src = Some a \<Longrightarrow>
   \<exists>doc. parse_page h src = Some doc \<and>
         art_meta_lang a = (case pg_html_lang doc of
                              None \<Rightarrow> js ''en''
                            | Some l \<Rightarrow> if l \<noteq> [] then l else js ''en'')"
  by (auto simp: get_newspaper3k_extract_def Let_def or_else_def
           split: if_splits option.splits)
lemma NewsExtract_language:
  assumes "NewsExtract h scan url source fqdn = Inr this"
  shows "ne_language this =
           (case declared_language h (ne_html this) of None \<Rightarrow> js ''en'' | Some l \<Rightarrow> l)"
proof (cases "get_newspaper3k_extract h (ne_html this)")
  case None
  then have "parse_page h (ne_html this) = None"
    using NewsExtract_fields(1) [OF assms]
    by (auto simp: get_newspaper3k_extract_def Let_def split: option.splits)
  with None NewsExtract_fields(7) [OF assms] show ?thesis
    by (simp add: declared_language_def)
next
  case (Some a)
  from extract_meta_lang [OF Some] obtain doc where
    d: "parse_page h (ne_html this) = Some doc"
    and m: "art_meta_lang a = (case pg_html_lang doc of None \<Rightarrow> js ''en''
                               | Some l \<Rightarrow> if l \<noteq> [] then l else js ''en'')"
    by blast
  from Some d m NewsExtract_fields(7) [OF assms] show ?thesis
    by (auto simp: declared_language_def js_def split: option.splits)
qed

text \<open>
  C10, as the code has it. The language of a \<open>NewsExtract\<close> result is never empty: it is
  the \<open>lang\<close> attribute of the document when the page declares a non-empty one, and
  \<open>"en"\<close> otherwise. The language in the metadata of \<open>GeneralParser\<close> is never empty
  either, but it is the part of the \<open>lang\<close> attribute before its first hyphen, then the
  content-language of the page, then \<open>"en"\<close>; and \<open>parse\<close> gives no language at all when
  metadata are not included.
\<close>

theorem language_field:
  "(NewsExtract h scan url source fqdn = Inr this \<longrightarrow>
      ne_language this \<noteq> [] \<and>
      ne_language this =
        (case declared_language h (ne_html this) of None \<Rightarrow> js ''en'' | Some l \<Rightarrow> l))
   \<and> metadata_language html_lang content_language \<noteq> []
   \<and> metadata_language html_lang content_language =
       or_else (map_option (takeWhile (\<lambda>c. c \<noteq> 45)) html_lang)
         (or_else content_language (js ''en''))
   \<and> (parse_language includeMetadata html_lang content_language = None \<longleftrightarrow> \<not> includeMetadata)"
proof -
  have 1: "ne_language this \<noteq> [] \<and>
      ne_language this =
        (case declared_language h (ne_html this) of None \<Rightarrow> js ''en'' | Some l \<Rightarrow> l)"
    if a: "NewsExtract h scan url source fqdn = Inr this"
    using NewsExtract_language [OF a]
    by (auto simp: declared_language_def js_def split: option.splits if_splits)
  have 2: "metadata_language html_lang content_language \<noteq> []"
    by (simp add: metadata_language_def or_else_nonempty js_def)
  have 3: "metadata_language html_lang content_language =
       or_else (map_option (takeWhile (\<lambda>c. c \<noteq> 45)) html_lang)
         (or_else content_language (js ''en''))"
    by (simp add: metadata_language_def first_of_split)
  have 4: "parse_language includeMetadata html_lang content_language = None \<longleftrightarrow> \<not> includeMetadata"
    by (simp add: parse_language_def)
  from 1 2 3 4 show ?thesis by blast
qed

theorem language_field_witness:
  "NewsExtract example_host (\<lambda>block :: unit. None) example_url (Some example_source) None
     = Inr example_instance
   \<and> declared_language example_host (ne_html example_instance) = Some (js ''en-US'')
   \<and> ne_language example_instance = js ''en-US''
   \<and> metadata_language (Some (js ''en-US'')) None = js ''en''"
proof -
  have e: "NewsExtract example_host (\<lambda>block :: unit. None) example_url (Some example_source) None
     = Inr example_instance"
    using example_extract_value by (simp add: example_extract_def)
  have d: "declared_language example_host (ne_html example_instance) = Some (js ''en-US'')"
    by (simp add: declared_language_def example_host_def example_page_def js_def)
  have m: "metadata_language (Some (js ''en-US'')) None = js ''en''"
    using language_field [of example_host "\<lambda>block :: unit. None" example_url "Some example_source"
        None example_instance "Some (js ''en-US'')" None True]
    by (simp add: js_def or_else_def)
  from language_field [of example_host "\<lambda>block :: unit. None" example_url "Some example_source"
        None example_instance "Some (js ''en-US'')" None True] e d m
  show ?thesis by simp
qed

theorem language_subtag_counterexample:
  "metadata_language (Some (js ''en-US'')) None = js ''en''
   \<and> metadata_language (Some (js ''en-US'')) None \<noteq> js ''en-US''"
  by (simp add: metadata_language_def or_else_def js_def)

subsection \<open>Images\<close>

lemma seqs_Cons: "seqs (r # rs) = Seq r (seqs rs)"
  by (simp add: seqs_def)

lemma seqs_Nil: "seqs [] = Eps"
  by (simp add: seqs_def)

lemma ends_syms:
  "ends (seqs (map (\<lambda>c. Sym (f c)) w)) (p, s) \<noteq> [] \<longleftrightarrow>
     length w \<le> length s \<and> list_all2 (\<lambda>c x. in_cset x (f c)) w (take (length w) s)"
proof (induction w arbitrary: p s)
  case Nil
  show ?case by (simp add: seqs_Nil)
next
  case (Cons c w)
  show ?case
  proof (cases s)
    case Nil
    then show ?thesis by (simp add: seqs_Cons)
  next
    case (Cons x t)
    show ?thesis
    proof (cases "in_cset x (f c)")
      case True
      with Cons Cons.IH [of "Some x" t] show ?thesis by (simp add: seqs_Cons)
    next
      case False
      with Cons show ?thesis by (simp add: seqs_Cons)
    qed
  qed
qed

lemma ci_lower_match:
  assumes "\<forall>c \<in> set w. 97 \<le> (of_char c :: int) \<and> (of_char c :: int) \<le> 122"
  shows "(length w \<le> length s \<and>
          list_all2 (\<lambda>c x. in_cset x (ci_set (of_char c))) w (take (length w) s))
         \<longleftrightarrow> startsWith (ascii_lower s) (js w)"
  using assms
proof (induction w arbitrary: s)
  case Nil
  show ?case by (simp add: startsWith_def js_def)
next
  case (Cons c w)
  show ?case
  proof (cases s)
    case Nil
    then show ?thesis by (simp add: startsWith_def js_def ascii_lower_def)
  next
    case (Cons x t)
    from Cons.prems have c: "97 \<le> (of_char c :: int)" "(of_char c :: int) \<le> 122"
      and w: "\<forall>c \<in> set w. 97 \<le> (of_char c :: int) \<and> (of_char c :: int) \<le> 122"
      by simp_all
    have h: "in_cset x (ci_set (of_char c)) \<longleftrightarrow>
             (if 65 \<le> x \<and> x \<le> 90 then x + 32 else x) = of_char c"
      using c by (auto simp: ci_set_def)
    from Cons.IH [OF w, of t] Cons h show ?thesis
      by (auto simp: startsWith_def js_def ascii_lower_def)
  qed
qed

lemma ends_ci_lit:
  assumes "\<forall>c \<in> set w. 97 \<le> (of_char c :: int) \<and> (of_char c :: int) \<le> 122"
  shows "ends (ci_lit w) (p, s) \<noteq> [] \<longleftrightarrow> startsWith (ascii_lower s) (js w)"
  unfolding ci_lit_def using ends_syms [of "\<lambda>c. ci_set (of_char c)" w p s] ci_lower_match [OF assms]
  by simp

lemma re_exec_exists:
  assumes "\<And>p t. (ends r (p, t) \<noteq> []) = M t"
  shows "re_exec r p s \<noteq> None \<longleftrightarrow> (\<exists>i \<le> length s. M (drop i s))"
proof (induction s arbitrary: p)
  case Nil
  show ?case using assms [of p "[]"] by (auto simp: match_at_def split: list.splits)
next
  case (Cons c s)
  show ?case
  proof (cases "M (c # s)")
    case True
    then have "ends r (p, c # s) \<noteq> []" using assms by simp
    then have "re_exec r p (c # s) \<noteq> None"
      by (auto simp: match_at_def split: list.splits)
    moreover have "\<exists>i \<le> length (c # s). M (drop i (c # s))"
      using True by (intro exI [of _ 0]) simp
    ultimately show ?thesis by blast
  next
    case False
    then have "ends r (p, c # s) = []" using assms by blast
    then have e: "re_exec r p (c # s) = re_exec r (Some c) s"
      by (simp add: match_at_def)
    have "(\<exists>i \<le> length (c # s). M (drop i (c # s))) \<longleftrightarrow> (\<exists>i \<le> length s. M (drop i s))"
    proof
      assume "\<exists>i \<le> length (c # s). M (drop i (c # s))"
      then obtain i where i: "i \<le> length (c # s)" "M (drop i (c # s))" by blast
      with False obtain j where "i = Suc j" by (cases i) auto
      with i show "\<exists>i \<le> length s. M (drop i s)" by auto
    next
      assume "\<exists>i \<le> length s. M (drop i s)"
      then obtain i where "i \<le> length s" "M (drop i s)" by blast
      then show "\<exists>i \<le> length (c # s). M (drop i (c # s))"
        by (intro exI [of _ "Suc i"]) simp
    qed
    with e Cons.IH [of "Some c"] show ?thesis by simp
  qed
qed

lemma str_includes_exists:
  "str_includes s k \<longleftrightarrow> (\<exists>i \<le> length s. startsWith (drop i s) k)"
proof (induction s)
  case Nil
  show ?case by (auto simp: startsWith_def)
next
  case (Cons c s)
  have "(\<exists>i \<le> length (c # s). startsWith (drop i (c # s)) k) \<longleftrightarrow>
        startsWith (c # s) k \<or> (\<exists>i \<le> length s. startsWith (drop i s) k)"
  proof
    assume "\<exists>i \<le> length (c # s). startsWith (drop i (c # s)) k"
    then obtain i where i: "i \<le> length (c # s)" "startsWith (drop i (c # s)) k" by blast
    show "startsWith (c # s) k \<or> (\<exists>i \<le> length s. startsWith (drop i s) k)"
    proof (cases i)
      case 0
      with i show ?thesis by simp
    next
      case (Suc j)
      with i show ?thesis by auto
    qed
  next
    assume "startsWith (c # s) k \<or> (\<exists>i \<le> length s. startsWith (drop i s) k)"
    then show "\<exists>i \<le> length (c # s). startsWith (drop i (c # s)) k"
    proof
      assume "startsWith (c # s) k"
      then show ?thesis by (intro exI [of _ 0]) simp
    next
      assume "\<exists>i \<le> length s. startsWith (drop i s) k"
      then obtain i where "i \<le> length s" "startsWith (drop i s) k" by blast
      then show ?thesis by (intro exI [of _ "Suc i"]) simp
    qed
  qed
  with Cons.IH show ?case by simp
qed

lemma logo_pattern_ends:
  "ends logo_pattern (p, t) \<noteq> [] \<longleftrightarrow>
     list_ex (\<lambda>w. startsWith (ascii_lower t) (js w)) logo_words"
proof -
  have l: "\<forall>c \<in> set ''logo''. 97 \<le> (of_char c :: int) \<and> (of_char c :: int) \<le> 122"
    and f: "\<forall>c \<in> set ''favicon''. 97 \<le> (of_char c :: int) \<and> (of_char c :: int) \<le> 122"
    and i: "\<forall>c \<in> set ''icon''. 97 \<le> (of_char c :: int) \<and> (of_char c :: int) \<le> 122"
    and d: "\<forall>c \<in> set ''pdf''. 97 \<le> (of_char c :: int) \<and> (of_char c :: int) \<le> 122"
    by simp_all
  show ?thesis
    using ends_ci_lit [OF l, of p t] ends_ci_lit [OF f, of p t] ends_ci_lit [OF i, of p t]
      ends_ci_lit [OF d, of p t]
    by (simp add: logo_pattern_def alts_def logo_words_def)
qed

lemma logo_pattern_test: "re_test logo_pattern url \<longleftrightarrow> names_logo url"
proof -
  have "re_test logo_pattern url \<longleftrightarrow>
        (\<exists>i \<le> length url. list_ex (\<lambda>w. startsWith (ascii_lower (drop i url)) (js w)) logo_words)"
    unfolding re_test_def re_first_def
    by (rule re_exec_exists) (rule logo_pattern_ends)
  also have "\<dots> \<longleftrightarrow> names_logo url"
    by (auto simp: names_logo_def logo_words_def str_includes_exists ascii_lower_def drop_map)
  finally show ?thesis .
qed

lemma get_images_eq:
  "get_images (Some a) clean_html =
     (case map string_of (filter is_http_string (top_images (art_top_image a))) of
        [] \<Rightarrow> []
      | first # others \<Rightarrow> if names_logo first then [] else first # others)"
  by (cases "art_top_image a")
     (auto simp: get_images_def top_images_def Let_def logo_pattern_test split: list.splits)

text \<open>
  C3. The images are the strings among the top-image values that start with \<open>http\<close>; if
  the first of them contains \<open>logo\<close>, \<open>favicon\<close>, \<open>icon\<close> or \<open>pdf\<close> in any letter case, the
  list is empty instead. The top image \<open>["https://cdn.x/logo.png", "https://cdn.x/photo.jpg"]\<close>
  gives the empty list.
\<close>

theorem images_rule:
  "get_images (Some a) clean_html =
     (case map string_of (filter is_http_string (top_images (art_top_image a))) of
        [] \<Rightarrow> []
      | first # others \<Rightarrow> if names_logo first then [] else first # others)
   \<and> (is_http_string v \<longleftrightarrow> (\<exists>s. v = JStr s \<and> startsWith s (js ''http'')))
   \<and> get_images (Some logo_article) clean_html = []"
proof -
  have 2: "is_http_string v \<longleftrightarrow> (\<exists>s. v = JStr s \<and> startsWith s (js ''http''))"
    by (cases v) (simp_all add: is_http_string_def)
  have "names_logo (js ''https://cdn.x/logo.png'')"
    by code_simp
  then have 3: "get_images (Some logo_article) clean_html = []"
    unfolding get_images_eq
    by (simp add: logo_article_def top_images_def is_http_string_def string_of_def
          startsWith_def js_def)
  from get_images_eq 2 3 show ?thesis by blast
qed

theorem images_rule_witness:
  "get_images (Some example_article) None = [js ''https://cdn.x/photo.jpg'']"
proof -
  have "\<not> names_logo (js ''https://cdn.x/photo.jpg'')"
    by code_simp
  with images_rule [of example_article None] show ?thesis
    by (simp add: example_article_def top_images_def is_http_string_def string_of_def
          startsWith_def js_def)
qed

subsection \<open>The content score\<close>

lemma fold_bonus:
  "fold (\<lambda>keyword score. if P keyword then score + c else score) kws (score0 :: int)
     = score0 + c * int (length (filter P kws))"
  by (induction kws arbitrary: score0) (auto simp: algebra_simps)

lemma fold_malus:
  "fold (\<lambda>keyword score. if P keyword then score - c else score) kws (score0 :: int)
     = score0 - c * int (length (filter P kws))"
  by (induction kws arbitrary: score0) (auto simp: algebra_simps)

text \<open>
  C6, as the code has it. The content score is the length of the text, plus 50 for each
  descendant paragraph, plus 100 for each content keyword and minus 200 for each noise
  keyword that occurs in the lower-cased class of the element (the id is not looked at),
  minus the penalty \<open>linkRatio * 100\<close> when the link ratio
  \<open>link_count / max(len(text) / 100, 1)\<close> exceeds 0.3, and at least 0.
\<close>

theorem content_score_formula:
  "calculateContentScore lower el text =
     (let cls = lower (className el);
          base = int (length text) + 50 * int (paragraphs el)
                 + 100 * int (keyword_count contentKeywords cls)
                 - 200 * int (keyword_count navKeywords cls)
      in d_max (0, 0)
           (case link_penalty el text of
              Some penalty \<Rightarrow> d_sub (d_norm (base, 0)) penalty
            | None \<Rightarrow> d_norm (base, 0)))"
  by (simp add: calculateContentScore_def Let_def fold_bonus fold_malus keyword_count_def
        link_penalty_def algebra_simps)

theorem content_score_formula_witness:
  "calculateContentScore ascii_lower nav_element
     (js ''0123456789012345678901234567890123456789'') = (0, 0)
   \<and> keyword_count contentKeywords (ascii_lower (className nav_element)) = 2
   \<and> keyword_count navKeywords (ascii_lower (className nav_element)) = 1
   \<and> link_penalty nav_element (js ''0123456789012345678901234567890123456789'')
       = Some (5277655813324800, - 44)"
proof -
  have c: "keyword_count contentKeywords (ascii_lower (className nav_element)) = 2"
    by code_simp
  have n: "keyword_count navKeywords (ascii_lower (className nav_element)) = 1"
    by code_simp
  have p: "link_penalty nav_element (js ''0123456789012345678901234567890123456789'')
       = Some (5277655813324800, - 44)"
    by code_simp
  have l: "int (length (js ''0123456789012345678901234567890123456789'')) = 40"
    by (simp add: js_def)
  have "d_max (0, 0) (d_sub (d_norm (140, 0)) (5277655813324800, - 44)) = (0, 0)"
    by code_simp
  with content_score_formula [of ascii_lower nav_element
         "js ''0123456789012345678901234567890123456789''"] c n p l
  show ?thesis by (simp add: Let_def nav_element_def)
qed

theorem content_score_id_counterexample:
  "d_round (calculateContentScore ascii_lower id_only_element (js ''0123456789'')) = 10
   \<and> d_round (claimed_content_score ascii_lower id_only_element (js ''0123456789'')) = 110"
  by code_simp


subsection \<open>The trigram index\<close>


lemma set_callback_step:
  assumes "set_inv up wl word seen st"
  shows "set_inv up wl word (seen @ [t]) (set_callback (length wl) t st)"
proof -
  let ?n = "length wl"
  let ?st = "set_callback ?n t st"
  from assms have w: "words st = wl @ [word]"
    and lw: "length (word_trigram_count st) = Suc ?n"
    and lt: "length (trigrams_count st) = Suc ?n"
    and old: "\<forall>i < ?n. word_trigram_count st ! i = length (to_trigram up (wl ! i))"
    and cnt: "word_trigram_count st ! ?n = length seen"
    and tr: "\<And>u. distinct (idxs st u) \<and>
          set (idxs st u) = tokens_with up wl u \<union> (if u \<in> set seen then {?n} else {})"
    by (auto simp: set_inv_def)
  have i_t: "idxs ?st t = (if ?n \<in> set (idxs st t) then idxs st t else idxs st t @ [?n])"
    by (simp add: set_callback_def idxs_def Let_def)
  have i_o: "u \<noteq> t \<Longrightarrow> idxs ?st u = idxs st u" for u
    by (simp add: set_callback_def idxs_def Let_def)
  have "distinct (idxs ?st u) \<and>
          set (idxs ?st u) = tokens_with up wl u \<union> (if u \<in> set (seen @ [t]) then {?n} else {})"
    for u
  proof (cases "u = t")
    case True
    with tr [of t] i_t show ?thesis by auto
  next
    case False
    with tr [of u] i_o [OF False] show ?thesis by auto
  qed
  moreover have "words ?st = wl @ [word]"
    using w by (simp add: set_callback_def Let_def)
  moreover have "length (word_trigram_count ?st) = Suc ?n"
    using lw by (simp add: set_callback_def Let_def)
  moreover have "length (trigrams_count ?st) = Suc ?n"
    using lt by (simp add: set_callback_def Let_def)
  moreover have "\<forall>i < ?n. word_trigram_count ?st ! i = length (to_trigram up (wl ! i))"
    using old by (simp add: set_callback_def Let_def)
  moreover have "word_trigram_count ?st ! ?n = length (seen @ [t])"
    using cnt lw by (simp add: set_callback_def Let_def)
  ultimately show ?thesis unfolding set_inv_def by blast
qed

lemma set_callback_fold:
  "set_inv up wl word seen st \<Longrightarrow>
   set_inv up wl word (seen @ ts) (fold (set_callback (length wl)) ts st)"
proof (induction ts arbitrary: seen st)
  case Nil
  then show ?case by simp
next
  case (Cons t ts)
  from Cons.IH [OF set_callback_step [OF Cons.prems, of t]] show ?case by simp
qed

lemma tokens_with_snoc:
  "tokens_with up (wl @ [word]) t =
     tokens_with up wl t \<union> (if t \<in> set (to_trigram up word) then {length wl} else {})"
  by (auto simp: tokens_with_def nth_append less_Suc_eq)

lemma Compare_set_inv:
  assumes "compare_inv up st"
  shows "compare_inv up (Compare_set up word st)"
proof (cases "word = [] \<or> word \<in> set (words st)")
  case True
  with assms show ?thesis by (simp add: Compare_set_def)
next
  case False
  let ?wl = "words st"
  let ?st1 = "st\<lparr>trigrams_count := trigrams_count st @ [0], words := words st @ [word],
                 word_trigram_count := word_trigram_count st @ [0]\<rparr>"
  from assms have "set_inv up ?wl word [] ?st1"
    by (auto simp: compare_inv_def set_inv_def idxs_def nth_append)
  from set_callback_fold [OF this, of "to_trigram up word"]
  have s: "set_inv up ?wl word (to_trigram up word)
             (fold (set_callback (length ?wl)) (to_trigram up word) ?st1)"
    by simp
  have e: "Compare_set up word st = fold (set_callback (length ?wl)) (to_trigram up word) ?st1"
    using False by (simp add: Compare_set_def Let_def)
  from assms False have d: "distinct (?wl @ [word])" "[] \<notin> set (?wl @ [word])"
    by (auto simp: compare_inv_def)
  from s d show ?thesis
    unfolding e set_inv_def compare_inv_def
    by (auto simp: tokens_with_snoc nth_append less_Suc_eq)
qed

lemma Compare_set_words:
  "set (words (Compare_set up word st)) = set (words st) \<union> (if word = [] then {} else {word})"
proof (cases "word = [] \<or> word \<in> set (words st)")
  case True
  then show ?thesis by (auto simp: Compare_set_def)
next
  case False
  let ?st1 = "st\<lparr>trigrams_count := trigrams_count st @ [0], words := words st @ [word],
                 word_trigram_count := word_trigram_count st @ [0]\<rparr>"
  have "words (fold (set_callback n) ts s) = words s" for n ts s
    by (induction ts arbitrary: s) (simp_all add: set_callback_def Let_def)
  with False show ?thesis by (simp add: Compare_set_def Let_def)
qed

lemma fold_Compare_set:
  "compare_inv up st \<Longrightarrow>
   compare_inv up (fold (Compare_set up) wl st) \<and>
   set (words (fold (Compare_set up) wl st)) = set (words st) \<union> (set wl - {[]})"
proof (induction wl arbitrary: st)
  case Nil
  then show ?case by simp
next
  case (Cons w wl)
  from Cons.IH [OF Compare_set_inv [OF Cons.prems, of w]] Compare_set_words [of up w st]
  show ?case by auto
qed

lemma Compare_new_inv:
  "compare_inv up (Compare_new up vocabulary)"
  "set (words (Compare_new up vocabulary)) = set vocabulary - {[]}"
proof -
  let ?st0 = "\<lparr>inputs = vocabulary, words = [], word_trigram_count = [], trigrams = Map.empty,
        trigrams_count = [], trigrams_matches = 0\<rparr>"
  have "compare_inv up ?st0"
    by (simp add: compare_inv_def idxs_def tokens_with_def)
  from fold_Compare_set [OF this, of vocabulary]
  show "compare_inv up (Compare_new up vocabulary)"
    and "set (words (Compare_new up vocabulary)) = set vocabulary - {[]}"
    by (simp_all add: Compare_new_def)
qed

text \<open>The arguments that \<open>__to_trigram\<close> passes to its callback, written out: the windows
  of three code units at every position of the padded, upper-cased word.\<close>

lemma to_trigram_windows:
  "to_trigram up word =
     map (\<lambda>k. take 3 (drop k (up (js ''  '' @ word @ js ''  ''))))
       [0 ..< length (up (js ''  '' @ word @ js ''  '')) - 2]"
  unfolding to_trigram_def Let_def by (rule filter_True) auto

lemma window_in_to_trigram:
  assumes "k + 3 \<le> length (up (js ''  '' @ word @ js ''  ''))"
  shows "take 3 (drop k (up (js ''  '' @ word @ js ''  ''))) \<in> set (to_trigram up word)"
proof -
  from assms have "k \<in> set [0 ..< length (up (js ''  '' @ word @ js ''  '')) - 2]" by simp
  then show ?thesis unfolding to_trigram_windows set_map by (rule imageI)
qed

text \<open>
  C5, as the code has it. After a vocabulary is built, every trigram of every non-empty
  vocabulary token is a key of the trigram index, and the list stored under it holds the
  index of the token, which is its position in \<open>words\<close>, the list of the distinct non-empty
  tokens. The trigrams of a token are the windows of three code units, at every position
  \<open>k\<close>, of the token padded with two spaces on each side and then upper-cased, the windows
  over the padding included. The empty string is no token: \<open>__set\<close> returns on it before
  anything is stored, so the index need not have its trigram of three spaces.
\<close>


theorem trigram_index_round_trip:
  assumes "token \<in> set vocabulary" and "token \<noteq> []"
      and "k + 3 \<le> length (up (js ''  '' @ token @ js ''  ''))"
  shows "distinct (words (Compare_new up vocabulary)) \<and>
         (\<exists>i l. i < length (words (Compare_new up vocabulary))
             \<and> words (Compare_new up vocabulary) ! i = token
             \<and> trigrams (Compare_new up vocabulary)
                  (take 3 (drop k (up (js ''  '' @ token @ js ''  '')))) = Some l
             \<and> i \<in> set l)"
proof -
  let ?st = "Compare_new up vocabulary"
  let ?t = "take 3 (drop k (up (js ''  '' @ token @ js ''  '')))"
  from assms(3) have t: "?t \<in> set (to_trigram up token)" by (rule window_in_to_trigram)
  from assms Compare_new_inv(2) [of up vocabulary] have "token \<in> set (words ?st)" by simp
  then obtain i where i: "i < length (words ?st)" "words ?st ! i = token"
    by (auto simp: in_set_conv_nth)
  from Compare_new_inv(1) [of up vocabulary]
  have inv: "set (idxs ?st ?t) = tokens_with up (words ?st) ?t" "distinct (words ?st)"
    by (simp_all add: compare_inv_def)
  from inv(1) t i have "i \<in> set (idxs ?st ?t)"
    by (simp add: tokens_with_def)
  then obtain l where "trigrams ?st ?t = Some l" "i \<in> set l"
    by (cases "trigrams ?st ?t") (auto simp: idxs_def)
  with i inv(2) show ?thesis by blast
qed

theorem trigram_index_round_trip_witness:
  "js ''editor'' \<in> set example_vocabulary \<and> js ''editor'' \<noteq> []
   \<and> 7 + 3 \<le> length (ascii_upper (js ''  '' @ js ''editor'' @ js ''  ''))
   \<and> take 3 (drop 7 (ascii_upper (js ''  '' @ js ''editor'' @ js ''  ''))) = js ''R  ''
   \<and> words (Compare_new ascii_upper example_vocabulary) = [js ''Author'', js ''editor'']
   \<and> trigrams (Compare_new ascii_upper example_vocabulary) (js ''R  '') = Some [0, 1]
   \<and> trigrams (Compare_new ascii_upper example_vocabulary) (js ''  E'') = Some [1]"
proof -
  have a: "js ''editor'' \<in> set example_vocabulary" by (simp add: example_vocabulary_def)
  have b: "js ''editor'' \<noteq> []" by (simp add: js_def)
  have c: "7 + 3 \<le> length (ascii_upper (js ''  '' @ js ''editor'' @ js ''  ''))"
    by (simp add: ascii_upper_def js_def)
  have d: "take 3 (drop 7 (ascii_upper (js ''  '' @ js ''editor'' @ js ''  ''))) = js ''R  ''"
    by code_simp
  have e: "words (Compare_new ascii_upper example_vocabulary) = [js ''Author'', js ''editor'']"
    by code_simp
  have f: "trigrams (Compare_new ascii_upper example_vocabulary) (js ''R  '') = Some [0, 1]"
    by code_simp
  have g: "trigrams (Compare_new ascii_upper example_vocabulary) (js ''  E'') = Some [1]"
    by code_simp
  from trigram_index_round_trip [where token = "js ''editor''" and vocabulary = example_vocabulary
         and k = 7 and up = ascii_upper, OF a b c] a b c d e f g
  show ?thesis by simp
qed

theorem empty_token_counterexample:
  "[] \<in> set [js ''AUTHOR'', []]
   \<and> 0 + 3 \<le> length (ascii_upper (js ''  '' @ [] @ js ''  ''))
   \<and> take 3 (drop 0 (ascii_upper (js ''  '' @ [] @ js ''  ''))) = js ''   ''
   \<and> words (Compare_new ascii_upper [js ''AUTHOR'', []]) = [js ''AUTHOR'']
   \<and> trigrams (Compare_new ascii_upper [js ''AUTHOR'', []]) (js ''   '') = None"
proof -
  have a: "0 + 3 \<le> length (ascii_upper (js ''  '' @ [] @ js ''  ''))"
    by (simp add: ascii_upper_def js_def)
  have b: "take 3 (drop 0 (ascii_upper (js ''  '' @ [] @ js ''  ''))) = js ''   ''"
    by code_simp
  have c: "words (Compare_new ascii_upper [js ''AUTHOR'', []]) = [js ''AUTHOR'']" by code_simp
  have d: "trigrams (Compare_new ascii_upper [js ''AUTHOR'', []]) (js ''   '') = None"
    by code_simp
  from a b c d show ?thesis by simp
qed

subsection \<open>Trigram scoring\<close>

lemma bump_fold:
  assumes "distinct l" and "\<forall>j \<in> set l. j < length (wm :: nat list)"
  shows "case fold (\<lambda>word_index (st2, wm).
                     (st2\<lparr>trigrams_count := (trigrams_count st2)
                            [word_index := trigrams_count st2 ! word_index + 1]\<rparr>,
                      wm[word_index := wm ! word_index + 1])) l (s, wm) of
           (s', wm') \<Rightarrow> same_index s s' \<and> length wm' = length wm \<and>
              (\<forall>i < length wm. wm' ! i = wm ! i + (if i \<in> set l then 1 else 0))"
  using assms
proof (induction l arbitrary: s wm)
  case Nil
  show ?case by (simp add: same_index_def)
next
  case (Cons j l)
  let ?s1 = "s\<lparr>trigrams_count := (trigrams_count s)[j := trigrams_count s ! j + 1]\<rparr>"
  let ?wm1 = "wm[j := wm ! j + 1]"
  from Cons.prems have d: "distinct l" and b: "\<forall>k \<in> set l. k < length ?wm1"
    and j: "j \<notin> set l" "j < length wm"
    by auto
  from Cons.IH [OF d b, of ?s1] j show ?case
    by (auto simp: same_index_def nth_list_update split: prod.splits)
qed

lemma eval_callback_step:
  assumes "distinct (idxs st t)" and "\<forall>j \<in> set (idxs st t). j < length wm"
  shows "case eval_callback t (st, wm) of
           (s', wm') \<Rightarrow> same_index st s' \<and> length wm' = length wm \<and>
              (\<forall>i < length wm. wm' ! i = wm ! i + (if i \<in> set (idxs st t) then 1 else 0))"
proof (cases "trigrams st t")
  case None
  then show ?thesis by (simp add: eval_callback_def idxs_def same_index_def)
next
  case (Some l)
  with assms have d: "distinct l" and b: "\<forall>j \<in> set l. j < length wm"
    by (simp_all add: idxs_def)
  from bump_fold [OF d b, of "st\<lparr>trigrams_matches := trigrams_matches st + 1\<rparr>"] Some
  show ?thesis
    by (auto simp: eval_callback_def idxs_def same_index_def split: prod.splits)
qed

lemma eval_callback_fold:
  assumes "\<forall>t. distinct (idxs st t) \<and> (\<forall>j \<in> set (idxs st t). j < length wm)"
  shows "case fold eval_callback cs (st, wm) of
           (s', wm') \<Rightarrow> same_index st s' \<and> length wm' = length wm \<and>
              (\<forall>i < length wm.
                 wm' ! i = wm ! i + length (filter (\<lambda>t. i \<in> set (idxs st t)) cs))"
  using assms
proof (induction cs arbitrary: st wm)
  case Nil
  show ?case by (simp add: same_index_def)
next
  case (Cons c cs)
  obtain s1 wm1 where e: "eval_callback c (st, wm) = (s1, wm1)" by (cases "eval_callback c (st, wm)")
  from Cons.prems have "distinct (idxs st c)" "\<forall>j \<in> set (idxs st c). j < length wm"
    by auto
  from eval_callback_step [OF this] e
  have 1: "same_index st s1" "length wm1 = length wm"
    "\<forall>i < length wm. wm1 ! i = wm ! i + (if i \<in> set (idxs st c) then 1 else 0)"
    by auto
  from 1(1) have i: "idxs s1 = idxs st"
    by (auto simp: same_index_def idxs_def fun_eq_iff)
  with Cons.prems 1(2)
  have "\<forall>t. distinct (idxs s1 t) \<and> (\<forall>j \<in> set (idxs s1 t). j < length wm1)"
    by simp
  from Cons.IH [OF this] e i 1 show ?case
    by (auto simp: same_index_def split: prod.splits)
qed

lemma concat_entries:
  "concat (map (\<lambda>i. if P (xs ! i) then [f (xs ! i)] else []) [0 ..< length xs])
     = map f (filter P xs)"
proof -
  have "map (\<lambda>i. if P (xs ! i) then [f (xs ! i)] else []) [0 ..< length xs]
          = map (\<lambda>x. if P x then [f x] else []) (map ((!) xs) [0 ..< length xs])"
    by simp
  also have "\<dots> = map (\<lambda>x. if P x then [f x] else []) xs"
    by (simp only: map_nth)
  finally have "concat (map (\<lambda>i. if P (xs ! i) then [f (xs ! i)] else []) [0 ..< length xs])
          = concat (map (\<lambda>x. if P x then [f x] else []) xs)"
    by simp
  also have "\<dots> = map f (filter P xs)"
    by (induction xs) auto
  finally show ?thesis .
qed

lemma eval_result:
  assumes "compare_inv up st"
  shows "fst (Compare_eval up candidate st) =
           sort_key (\<lambda>r. - int (res_matches r))
             (map (scored up candidate)
                (filter (\<lambda>token. num_ge (token_percentage up candidate token) (49, 0))
                   (words st)))"
proof -
  let ?n = "length (words st)"
  let ?st0 = "st\<lparr>trigrams_matches := 0\<rparr>"
  let ?cs = "to_trigram up candidate"
  obtain st' wm where f: "fold eval_callback ?cs (?st0, replicate ?n 0) = (st', wm)"
    by (cases "fold eval_callback ?cs (?st0, replicate ?n 0)")
  have i0: "idxs ?st0 = idxs st"
    by (simp add: idxs_def fun_eq_iff)
  from assms have inv: "\<And>t. distinct (idxs st t)"
    "\<And>t. set (idxs st t) = tokens_with up (words st) t"
    and wtc: "\<forall>i < ?n. word_trigram_count st ! i = length (to_trigram up (words st ! i))"
    and ltc: "length (trigrams_count st) = ?n"
    by (simp_all add: compare_inv_def)
  have "\<forall>t. distinct (idxs ?st0 t) \<and> (\<forall>j \<in> set (idxs ?st0 t). j < length (replicate ?n (0::nat)))"
    using inv by (simp add: i0 tokens_with_def)
  from eval_callback_fold [OF this, of ?cs] f
  have s: "same_index ?st0 st'" and l: "length wm = ?n"
    and m: "\<forall>i < ?n. wm ! i = length (filter (\<lambda>t. i \<in> set (idxs ?st0 t)) ?cs)"
    by auto
  have m': "wm ! i = trigram_matches up candidate (words st ! i)" if "i < ?n" for i
  proof -
    have "(\<lambda>t. i \<in> set (idxs ?st0 t)) = (\<lambda>t. t \<in> set (to_trigram up (words st ! i)))"
      using that inv(2) by (simp add: i0 tokens_with_def fun_eq_iff)
    with m that show ?thesis by (simp add: trigram_matches_def)
  qed
  from s have w: "words st' = words st" "word_trigram_count st' = word_trigram_count st"
    "length (trigrams_count st') = ?n"
    using ltc by (simp_all add: same_index_def)
  have e: "eval_entry st' wm i =
             (if num_ge (token_percentage up candidate (words st ! i)) (49, 0)
              then [scored up candidate (words st ! i)] else [])" if "i < ?n" for i
    using that m' [OF that] wtc w
    by (simp add: eval_entry_def Let_def token_percentage_def scored_def)
  have me: "map (eval_entry st' wm) [0 ..< ?n] =
          map (\<lambda>i. if num_ge (token_percentage up candidate (words st ! i)) (49, 0)
                    then [scored up candidate (words st ! i)] else []) [0 ..< ?n]"
    using e by simp
  have "concat (map (eval_entry st' wm) [0 ..< ?n]) =
          map (scored up candidate)
            (filter (\<lambda>token. num_ge (token_percentage up candidate token) (49, 0)) (words st))"
    unfolding me by (rule concat_entries)
  with f w show ?thesis by (simp add: Compare_eval_def)
qed

lemma bitlen_lower: "0 < n \<Longrightarrow> 2 ^ (bitlen n - 1) \<le> n"
proof (induction n rule: bitlen.induct)
  case (1 n)
  show ?case
  proof (cases "n = 1")
    case True
    then show ?thesis by (simp add: bitlen.simps [of 1] bitlen.simps [of 0])
  next
    case False
    with "1.prems" have h: "0 < n div 2" "\<not> n \<le> 0" by auto
    from "1.IH" [OF h(2) h(1)] have "2 ^ (bitlen (n div 2) - 1) \<le> n div 2" .
    moreover have "bitlen n = Suc (bitlen (n div 2))"
      using h(2) by (simp add: bitlen.simps [of n])
    moreover have "0 < bitlen (n div 2)"
      using h(1) by (simp add: bitlen.simps [of "n div 2"])
    ultimately have "2 ^ (bitlen n - 1) \<le> 2 * (n div 2)"
      by (cases "bitlen (n div 2)") auto
    then show ?thesis by linarith
  qed
qed

lemma round_frac_same: "0 < n \<Longrightarrow> round_frac n n = (2 ^ 52, - 52)"
  by (simp add: round_frac_def scale_frac_def round_scaled_def Let_def)

lemma round_scaled_pos:
  assumes "0 < d" and "d \<le> n"
  shows "0 < round_scaled (n, d)"
proof -
  from assms have "d div d \<le> n div d" by (intro zdiv_mono1) simp_all
  with assms have "1 \<le> n div d" by simp
  then show ?thesis by (simp add: round_scaled_def Let_def)
qed

lemma round_frac_one_pos:
  assumes "0 < n"
  shows "0 < fst (round_frac n 1)"
proof -
  have b1: "bitlen 1 = 1"
    by (simp add: bitlen.simps [of 1] bitlen.simps [of 0])
  let ?k = "int (bitlen n) - 1"
  have low: "2 ^ (bitlen n - 1) \<le> n" using assms by (rule bitlen_lower)
  have pos: "0 < round_scaled (scale_frac n 1 s)" if "52 - ?k \<le> s" for s :: int
  proof (cases "0 \<le> s")
    case True
    have "(1::int) \<le> 2 ^ nat s" by simp
    with assms have "1 * 1 \<le> n * 2 ^ nat s" by (intro mult_mono) simp_all
    with True show ?thesis by (simp add: scale_frac_def round_scaled_pos)
  next
    case False
    with that have "nat (- s) \<le> bitlen n - 1" by linarith
    then have "(2::int) ^ nat (- s) \<le> 2 ^ (bitlen n - 1)"
      by (intro power_increasing) simp_all
    with low have "(2::int) ^ nat (- s) \<le> n" by linarith
    with False show ?thesis by (simp add: scale_frac_def round_scaled_pos)
  qed
  have "fst (round_frac n 1) = round_scaled (scale_frac n 1 (52 - ?k))
      \<or> fst (round_frac n 1) = round_scaled (scale_frac n 1 (53 - ?k))"
    using assms by (simp add: round_frac_def Let_def b1)
  with pos [of "52 - ?k"] pos [of "53 - ?k"] show ?thesis by auto
qed

lemma percentage_same:
  assumes "0 < c"
  shows "percentage c c = Fin (7036874417766400, - 46)"
proof -
  obtain q e where x: "d_of_nat c = (q, e)" by (cases "d_of_nat c")
  from assms have "0 < fst (round_frac (int c) 1)"
    by (intro round_frac_one_pos) simp
  with x assms have q: "0 < q"
    by (auto simp: d_of_nat_def d_norm_def split: prod.splits)
  then have "d_div (q, e) (q, e) = (2 ^ 52, - 52)"
    by (simp add: d_div_def round_frac_same)
  moreover have "d_mul (2 ^ 52, - 52) (100, 0) = (7036874417766400, - 46)"
    by code_simp
  ultimately show ?thesis
    using assms x by (simp add: percentage_def num_div_def num_mul_def)
qed

lemma full_percentage:
  "num_ge (Fin (7036874417766400, - 46)) (49, 0)"
  "show_rounded (Fin (7036874417766400, - 46)) @ js ''%'' = js ''100%''"
  by code_simp+

text \<open>
  C4, as the code has it. \<open>eval\<close> returns exactly the non-empty vocabulary tokens whose
  percentage (the number of trigrams of the candidate found in the token, divided by the
  number of trigrams of the token, times 100, in double arithmetic) is at least 49 before
  rounding;
  the similarity reported is that percentage rounded. The result is in descending order of
  the match count, tokens with equal count in vocabulary order. A candidate equal to a
  vocabulary token is reported for that token with \<open>100%\<close>.
\<close>


theorem eval_returns_tokens_at_49_percent:
  "fst (Compare_eval up candidate (Compare_new up vocabulary)) =
     sort_key (\<lambda>r. - int (res_matches r))
       (map (scored up candidate)
          (filter (\<lambda>token. num_ge (token_percentage up candidate token) (49, 0))
             (words (Compare_new up vocabulary))))
   \<and> sorted_wrt (\<lambda>a b. res_matches b \<le> res_matches a)
       (fst (Compare_eval up candidate (Compare_new up vocabulary)))
   \<and> distinct (words (Compare_new up vocabulary))
   \<and> set (words (Compare_new up vocabulary)) = set vocabulary - {[]}
   \<and> (token \<in> set vocabulary \<and> token \<noteq> [] \<and> to_trigram up token \<noteq> [] \<longrightarrow>
        \<lparr>res_word = token, res_matches = length (to_trigram up token),
         res_similarity = js ''100%''\<rparr>
          \<in> set (fst (Compare_eval up token (Compare_new up vocabulary))))"
proof -
  let ?st = "Compare_new up vocabulary"
  note inv = Compare_new_inv(1) [of up vocabulary]
  note r = eval_result [OF inv]
  have 1: "sorted_wrt (\<lambda>a b. res_matches b \<le> res_matches a) (fst (Compare_eval up candidate ?st))"
  proof -
    have "sorted (map (\<lambda>r. - int (res_matches r)) (fst (Compare_eval up candidate ?st)))"
      unfolding r by (rule sorted_sort_key)
    then show ?thesis by (simp add: sorted_map)
  qed
  have 2: "distinct (words ?st)" using inv by (simp add: compare_inv_def)
  have 3: "\<lparr>res_word = token, res_matches = length (to_trigram up token),
         res_similarity = js ''100%''\<rparr> \<in> set (fst (Compare_eval up token ?st))"
    if t: "token \<in> set vocabulary" "token \<noteq> []" "to_trigram up token \<noteq> []"
  proof -
    have m: "trigram_matches up token token = length (to_trigram up token)"
      by (simp add: trigram_matches_def)
    from t(3) have "0 < length (to_trigram up token)" by simp
    from percentage_same [OF this] m
    have p: "token_percentage up token token = Fin (7036874417766400, - 46)"
      by (simp add: token_percentage_def)
    from t Compare_new_inv(2) [of up vocabulary] have "token \<in> set (words ?st)" by simp
    with p full_percentage(1)
    have "scored up token token \<in> set (fst (Compare_eval up token ?st))"
      unfolding eval_result [OF inv] by simp
    moreover have "scored up token token = \<lparr>res_word = token,
        res_matches = length (to_trigram up token), res_similarity = js ''100%''\<rparr>"
      using m p full_percentage(2) by (simp add: scored_def)
    ultimately show ?thesis by simp
  qed
  from r 1 2 3 Compare_new_inv(2) [of up vocabulary] show ?thesis by blast
qed

theorem eval_returns_tokens_at_49_percent_witness:
  "js ''AUTHOR'' \<in> set author_keys \<and> js ''AUTHOR'' \<noteq> []
   \<and> to_trigram ascii_upper (js ''AUTHOR'') \<noteq> []
   \<and> \<lparr>res_word = js ''AUTHOR'', res_matches = 8, res_similarity = js ''100%''\<rparr>
        \<in> set (fst (Compare_eval ascii_upper (js ''AUTHOR'') (Compare_new ascii_upper author_keys)))
   \<and> fst (Compare_eval ascii_upper (js ''author'') (Compare_new ascii_upper author_keys)) =
       [\<lparr>res_word = js ''AUTHOR'', res_matches = 8, res_similarity = js ''100%''\<rparr>]"
proof -
  have a: "js ''AUTHOR'' \<in> set author_keys" by (simp add: author_keys_def)
  have b: "js ''AUTHOR'' \<noteq> []" by (simp add: js_def)
  have c: "to_trigram ascii_upper (js ''AUTHOR'') \<noteq> []" by code_simp
  have l: "length (to_trigram ascii_upper (js ''AUTHOR'')) = 8" by code_simp
  have e: "fst (Compare_eval ascii_upper (js ''author'') (Compare_new ascii_upper author_keys)) =
       [\<lparr>res_word = js ''AUTHOR'', res_matches = 8, res_similarity = js ''100%''\<rparr>]"
    by code_simp
  from eval_returns_tokens_at_49_percent [of ascii_upper "js ''AUTHOR''" author_keys "js ''AUTHOR''"]
  have "js ''AUTHOR'' \<in> set author_keys \<and> js ''AUTHOR'' \<noteq> []
          \<and> to_trigram ascii_upper (js ''AUTHOR'') \<noteq> [] \<longrightarrow>
        \<lparr>res_word = js ''AUTHOR'', res_matches = length (to_trigram ascii_upper (js ''AUTHOR'')),
         res_similarity = js ''100%''\<rparr>
          \<in> set (fst (Compare_eval ascii_upper (js ''AUTHOR'') (Compare_new ascii_upper author_keys)))"
    by blast
  with a b c have m: "\<lparr>res_word = js ''AUTHOR'', res_matches = 8, res_similarity = js ''100%''\<rparr>
          \<in> set (fst (Compare_eval ascii_upper (js ''AUTHOR'') (Compare_new ascii_upper author_keys)))"
    unfolding l by blast
  show ?thesis using a b c m e by (intro conjI) assumption+
qed

theorem rounded_similarity_counterexample:
  "show_rounded (token_percentage ascii_upper prefix_candidate long_token) = js ''49''
   \<and> trigram_matches ascii_upper prefix_candidate long_token = 17
   \<and> length (to_trigram ascii_upper long_token) = 35
   \<and> fst (Compare_eval ascii_upper prefix_candidate (Compare_new ascii_upper [long_token])) = []"
proof -
  have m: "trigram_matches ascii_upper prefix_candidate long_token = 17" by code_simp
  have c: "length (to_trigram ascii_upper long_token) = 35" by code_simp
  have "show_rounded (percentage 17 35) = js ''49''" by code_simp
  with m c have s: "show_rounded (token_percentage ascii_upper prefix_candidate long_token) = js ''49''"
    by (simp add: token_percentage_def)
  have e: "fst (Compare_eval ascii_upper prefix_candidate (Compare_new ascii_upper [long_token])) = []"
    by code_simp
  from s m c e show ?thesis by simp
qed

subsection \<open>Cleaning extracted text\<close>

lemma ends_suffix: "st' \<in> set (ends r st) \<Longrightarrow> suffix (snd st') (snd st)"
proof (induction r st arbitrary: st' rule: ends.induct)
  case (1 cs p s)
  then show ?case by (auto split: list.splits if_splits intro: suffix_ConsI)
next
  case (2 cs p s)
  then show ?case by (auto split: list.splits if_splits intro: suffix_ConsI)
next
  case (3 st)
  then show ?case by simp
next
  case (4 r1 r2 st)
  from "4.prems" obtain st1 where a: "st1 \<in> set (ends r1 st)" and b: "st' \<in> set (ends r2 st1)"
    by auto
  from "4.IH"(1) [OF a] "4.IH"(2) [OF a b] show ?case
    by (rule suffix_order.trans [rotated])
next
  case (5 r1 r2 st)
  from "5.prems" have "st' \<in> set (ends r1 st) \<or> st' \<in> set (ends r2 st)" by simp
  with "5.IH" show ?case by blast
next
  case (6 r st)
  from "6.prems"
  have "st' \<in> set (concat (map (\<lambda>st'. ends (Star r) st')
               (filter (\<lambda>st'. length (snd st') < length (snd st)) (ends r st))) @ [st])"
    by (subst (asm) ends.simps(6))
  then consider "st' = st"
    | st1 where "st1 \<in> set (ends r st)" "length (snd st1) < length (snd st)"
        "st' \<in> set (ends (Star r) st1)"
    by (auto simp del: ends.simps)
  then show ?case
  proof cases
    case 1
    then show ?thesis by simp
  next
    case 2
    then have m: "st1 \<in> set (filter (\<lambda>st'. length (snd st') < length (snd st)) (ends r st))"
      by (simp del: ends.simps)
    from "6.IH"(1) [OF 2(1)] "6.IH"(2) [OF m 2(3)] show ?thesis
      by (rule suffix_order.trans [rotated])
  qed
next
  case (7 m p s)
  then show ?case by (auto split: option.splits if_splits)
next
  case (8 m p s)
  then show ?case by (auto split: list.splits if_splits)
qed

lemma match_at_suffix: "match_at r (p, s) = Some (p', s') \<Longrightarrow> suffix s' s"
  using ends_suffix [of "(p', s')" r "(p, s)"]
  by (auto simp: match_at_def split: list.splits)

lemma non_space_subseq: "subseq a b \<Longrightarrow> subseq (non_space a) (non_space b)"
  by (simp add: non_space_def)

lemma non_space_append: "non_space (a @ b) = non_space a @ non_space b"
  by (simp add: non_space_def)

lemma replace_from_subseq:
  "non_space rep = [] \<Longrightarrow> subseq (non_space (replace_from r rep p s)) (non_space s)"
proof (induction r rep p s rule: replace_from.induct)
  case (1 r rep p s)
  note rep = "1.prems"
  show ?case
  proof (cases "match_at r (p, s)")
    case None
    show ?thesis
    proof (cases s)
      case Nil
      with None show ?thesis by (simp add: non_space_def)
    next
      case (Cons c t)
      from "1.IH"(1) [OF None Cons rep] None Cons show ?thesis
        by (subst replace_from.simps) (simp add: non_space_def)
    qed
  next
    case (Some e)
    obtain p' s' where e: "e = (p', s')" by (cases e)
    show ?thesis
    proof (cases "length s' < length s")
      case True
      from match_at_suffix Some e have a: "subseq (non_space s') (non_space s)"
        by (intro non_space_subseq suffix_imp_subseq) blast
      from "1.IH"(2) [OF Some e [symmetric] True rep]
      have b: "subseq (non_space (replace_from r rep p' s')) (non_space s')" .
      have "replace_from r rep p s = rep @ replace_from r rep p' s'"
        using Some e True by (subst replace_from.simps) simp
      with rep subseq_order.trans [OF b a] show ?thesis
        by (simp add: non_space_append)
    next
      case False
      show ?thesis
      proof (cases s)
        case Nil
        have "replace_from r rep p s = rep"
          using Some e False Nil by (subst replace_from.simps) simp
        with rep Nil show ?thesis by (simp add: non_space_def)
      next
        case (Cons c t)
        from "1.IH"(3) [OF Some e [symmetric] False Cons rep]
        have b: "subseq (non_space (replace_from r rep (Some c) t)) (non_space t)" .
        have "replace_from r rep p s = rep @ c # replace_from r rep (Some c) t"
          using Some e False Cons by (subst replace_from.simps) simp
        with rep b Cons show ?thesis
          by (simp add: non_space_append) (simp add: non_space_def)
      qed
    qed
  qed
qed

lemma replace_all_subseq:
  "non_space rep = [] \<Longrightarrow> subseq (non_space (replace_all r rep s)) (non_space s)"
  unfolding replace_all_def by (rule replace_from_subseq)

lemma remove_all_subseq: "subseq (non_space (remove_all rs s)) (non_space s)"
proof (induction rs arbitrary: s)
  case Nil
  show ?case by (simp add: remove_all_def)
next
  case (Cons r rs)
  have a: "subseq (non_space (replace_all r [] s)) (non_space s)"
    by (rule replace_all_subseq) (simp add: non_space_def)
  from Cons.IH [of "replace_all r [] s"]
  have "subseq (non_space (remove_all (r # rs) s)) (non_space (replace_all r [] s))"
    by (simp add: remove_all_def)
  from subseq_order.trans [OF this a] show ?case .
qed

lemma join_split: "join [sep] (split_on sep s) = s"
proof (induction s)
  case Nil
  show ?case by simp
next
  case (Cons c s)
  show ?case
  proof (cases "split_on sep s")
    case Nil
    with Cons show ?thesis by simp
  next
    case (Cons l ls)
    with Cons.IH show ?thesis by (cases ls) auto
  qed
qed

lemma non_space_join:
  "is_space sep \<Longrightarrow> non_space (join [sep] ls) = concat (map non_space ls)"
  by (induction "[sep]" ls rule: join.induct) (simp_all add: non_space_def)

lemma concat_filter_subseq:
  "subseq (concat (map f (filter P ls))) (concat (map f ls))"
  by (induction ls) (auto intro: list_emb_append2 list_emb_append_mono)

lemma is_space_newline: "is_space 10" and is_space_blank: "is_space 32"
  by (simp_all add: is_space_def cs_space_def)

lemma filtered_lines_subseq:
  "subseq (non_space (join [10] (filter P (split_on 10 s)))) (non_space s)"
proof -
  have "non_space s = concat (map non_space (split_on 10 s))"
    using non_space_join [OF is_space_newline, of "split_on 10 s"] by (simp add: join_split)
  then show ?thesis
    by (simp add: non_space_join [OF is_space_newline] concat_filter_subseq)
qed

lemma non_space_trim: "non_space (trim s) = non_space s"
proof -
  have d: "non_space (dropWhile is_space t) = non_space t" for t
    by (induction t) (simp_all add: non_space_def)
  have r: "non_space (rev t) = rev (non_space t)" for t
    by (simp add: non_space_def rev_filter)
  show ?thesis by (simp add: trim_def r d)
qed

lemma clean_subseq: "subseq (non_space (clean_extracted_content x)) (non_space x)"
proof (cases "x = []")
  case True
  then show ?thesis by (simp add: clean_extracted_content_def)
next
  case False
  let ?c = "remove_all unwantedPatterns (remove_all css_and_script_passes x)"
  let ?j = "join [10] (filter keep_line (split_on 10 ?c))"
  have 1: "subseq (non_space ?c) (non_space x)"
    by (rule subseq_order.trans [OF remove_all_subseq remove_all_subseq])
  have 2: "subseq (non_space ?j) (non_space ?c)"
    by (rule filtered_lines_subseq)
  have 3: "subseq (non_space (replace_all ws1 [32] ?j)) (non_space ?j)"
    by (rule replace_all_subseq) (simp add: non_space_def is_space_blank)
  have 4: "subseq (non_space (replace_all (seqs [cu 10, ws, cu 10]) [10] (replace_all ws1 [32] ?j)))
             (non_space (replace_all ws1 [32] ?j))"
    by (rule replace_all_subseq) (simp add: non_space_def is_space_newline)
  have "clean_extracted_content x =
          trim (replace_all (seqs [cu 10, ws, cu 10]) [10] (replace_all ws1 [32] ?j))"
    using False by (simp add: clean_extracted_content_def Let_def)
  then have "non_space (clean_extracted_content x) =
          non_space (replace_all (seqs [cu 10, ws, cu 10]) [10] (replace_all ws1 [32] ?j))"
    by (simp add: non_space_trim)
  with subseq_order.trans [OF subseq_order.trans [OF subseq_order.trans [OF 4 3] 2] 1]
  show ?thesis by simp
qed

lemma clean_spaced_headline: "clean_extracted_content spaced_headline = js ''Mayor wins''"
  by code_simp

lemma clean_headline: "clean_extracted_content (js ''Mayor wins'') = []"
  by code_simp

text \<open>
  C7, as the code has it. \<open>clean_extracted_content\<close> is not idempotent: the line filter
  measures a line before runs of white space are collapsed, and patterns are applied once
  and in a fixed order, so a second pass can delete text that the first one kept. What
  holds is that cleaning only removes: apart from white space, the code units of the
  cleaned text are a subsequence of those of the input, so a second pass never adds to the
  result of the first, and the empty text stays empty.
\<close>

theorem second_cleaning_only_removes:
  "subseq (non_space (clean_extracted_content (clean_extracted_content x)))
          (non_space (clean_extracted_content x))
   \<and> subseq (non_space (clean_extracted_content x)) (non_space x)
   \<and> clean_extracted_content [] = []"
  by (simp add: clean_subseq) (simp add: clean_extracted_content_def)

theorem second_cleaning_only_removes_witness:
  "subseq (non_space (clean_extracted_content (clean_extracted_content spaced_headline)))
          (non_space (js ''Mayor wins''))
   \<and> subseq (non_space (js ''Mayor wins'')) (non_space spaced_headline)"
  using second_cleaning_only_removes [of spaced_headline]
  by (simp only: clean_spaced_headline)

theorem cleaning_not_idempotent_counterexample:
  "clean_extracted_content (clean_extracted_content spaced_headline)
     \<noteq> clean_extracted_content spaced_headline"
  by (simp only: clean_spaced_headline clean_headline) (simp add: js_def)

end
